theory Spec2Isabelle
  imports Complex_Main "HOL-Library.Sublist"
begin

section \<open>Python values used by list.py\<close>

text \<open>
  The script works on the result of \<^verbatim>\<open>json.load\<close>: strings, numbers and nested
  dictionaries. A string is the list of its code points, and \<^typ>\<open>char\<close> holds the code
  points below 256 (Latin-1): on these, letter case, whitespace and digits are as in
  Python. Exceptions are values of \<open>py_error\<close>.
\<close>

datatype py_error = TypeError | ValueError | OverflowError | EOFError

subsection \<open>Strings\<close>

text \<open>
  The cased letters below 256 that \<^verbatim>\<open>str.lower()\<close> changes: A to Z, and the code points
  0xC0 to 0xDE without the multiplication sign 0xD7; each moves up by 0x20.
\<close>
definition upper_letters :: string where
  "upper_letters = ''ABCDEFGHIJKLMNOPQRSTUVWXYZ''
     @ [CHR 0xC0, CHR 0xC1, CHR 0xC2, CHR 0xC3, CHR 0xC4, CHR 0xC5, CHR 0xC6, CHR 0xC7,
        CHR 0xC8, CHR 0xC9, CHR 0xCA, CHR 0xCB, CHR 0xCC, CHR 0xCD, CHR 0xCE, CHR 0xCF,
        CHR 0xD0, CHR 0xD1, CHR 0xD2, CHR 0xD3, CHR 0xD4, CHR 0xD5, CHR 0xD6,
        CHR 0xD8, CHR 0xD9, CHR 0xDA, CHR 0xDB, CHR 0xDC, CHR 0xDD, CHR 0xDE]"

definition lower_letters :: string where
  "lower_letters = ''abcdefghijklmnopqrstuvwxyz''
     @ [CHR 0xE0, CHR 0xE1, CHR 0xE2, CHR 0xE3, CHR 0xE4, CHR 0xE5, CHR 0xE6, CHR 0xE7,
        CHR 0xE8, CHR 0xE9, CHR 0xEA, CHR 0xEB, CHR 0xEC, CHR 0xED, CHR 0xEE, CHR 0xEF,
        CHR 0xF0, CHR 0xF1, CHR 0xF2, CHR 0xF3, CHR 0xF4, CHR 0xF5, CHR 0xF6,
        CHR 0xF8, CHR 0xF9, CHR 0xFA, CHR 0xFB, CHR 0xFC, CHR 0xFD, CHR 0xFE]"

definition lower_char :: "char \<Rightarrow> char" where
  "lower_char c =
     (case List.find (\<lambda>p. fst p = c) (zip upper_letters lower_letters) of
        None \<Rightarrow> c | Some p \<Rightarrow> snd p)"

text \<open>\<^verbatim>\<open>str.lower()\<close>\<close>
definition lower :: "string \<Rightarrow> string" where
  "lower s = map lower_char s"

text \<open>\<^verbatim>\<open>str.isspace()\<close> on one character: what \<^verbatim>\<open>str.strip()\<close> removes.\<close>
definition is_space :: "char \<Rightarrow> bool" where
  "is_space c = (c \<in> set [CHR '' '', CHR 0x09, CHR 0x0A, CHR 0x0B, CHR 0x0C, CHR 0x0D,
                            CHR 0x1C, CHR 0x1D, CHR 0x1E, CHR 0x1F, CHR 0x85, CHR 0xA0])"

text \<open>\<^verbatim>\<open>str.strip()\<close>\<close>
definition strip :: "string \<Rightarrow> string" where
  "strip s = rev (dropWhile is_space (rev (dropWhile is_space s)))"

text \<open>
  The whitespace that \<^verbatim>\<open>float\<close> skips around a number: the six ASCII ones, and the
  spaces above 127, which it reads as blanks. The separators 0x1C to 0x1F are not among
  them.
\<close>
definition is_float_space :: "char \<Rightarrow> bool" where
  "is_float_space c = (c \<in> set [CHR '' '', CHR 0x09, CHR 0x0A, CHR 0x0B, CHR 0x0C, CHR 0x0D,
                                  CHR 0x85, CHR 0xA0])"

definition float_strip :: "string \<Rightarrow> string" where
  "float_strip s = rev (dropWhile is_float_space (rev (dropWhile is_float_space s)))"

text \<open>\<^verbatim>\<open>f"{s:<{w}}"\<close> and \<^verbatim>\<open>f"{s:>{w}}"\<close>: pad with spaces, never truncate.\<close>
definition ljust :: "nat \<Rightarrow> string \<Rightarrow> string" where
  "ljust w s = s @ replicate (w - length s) CHR '' ''"

definition rjust :: "nat \<Rightarrow> string \<Rightarrow> string" where
  "rjust w s = replicate (w - length s) CHR '' '' @ s"

text \<open>\<^verbatim>\<open>sep.join(parts)\<close>\<close>
fun join :: "string \<Rightarrow> string list \<Rightarrow> string" where
  "join sep [] = []"
| "join sep [x] = x"
| "join sep (x # y # ys) = x @ sep @ join sep (y # ys)"

definition is_digit :: "char \<Rightarrow> bool" where
  "is_digit c = (c \<in> set ''0123456789'')"

definition digit_val :: "char \<Rightarrow> nat" where
  "digit_val c =
     (case List.find (\<lambda>p. fst p = c) (zip ''0123456789'' [0, 1, 2, 3, 4, 5, 6, 7, 8, 9]) of
        None \<Rightarrow> 0 | Some p \<Rightarrow> snd p)"

definition digits_val :: "string \<Rightarrow> nat" where
  "digits_val s = foldl (\<lambda>acc c. 10 * acc + digit_val c) 0 s"

definition digit_char :: "nat \<Rightarrow> char" where
  "digit_char d = ''0123456789'' ! (d mod 10)"

text \<open>\<^verbatim>\<open>str(n)\<close> for a natural number.\<close>
fun str_nat :: "nat \<Rightarrow> string" where
  "str_nat n = (if n < 10 then [digit_char n] else str_nat (n div 10) @ [digit_char (n mod 10)])"

declare str_nat.simps [simp del]

subsection \<open>Floats\<close>

text \<open>
  A Python float is an IEEE double: a finite value (kept as the rational number it
  denotes), negative zero, an infinity or NaN. \<open>round_double\<close> rounds a rational to the
  nearest double, ties to even, overflowing to an infinity.
\<close>

datatype pyfloat = Finite rat | MinusZero | PInf | MInf | NaN

definition pow2 :: "int \<Rightarrow> rat" where
  "pow2 k = (if 0 \<le> k then 2 ^ nat k else 1 / 2 ^ nat (- k))"

fun bit_length :: "nat \<Rightarrow> nat" where
  "bit_length n = (if n = 0 then 0 else Suc (bit_length (n div 2)))"

declare bit_length.simps [simp del]

text \<open>
  The integer \<open>k\<close> with \<open>2 ^ k \<le> a < 2 ^ (k + 1)\<close>, for \<open>a > 0\<close>: from the bit length of
  the integer part when \<open>a \<ge> 1\<close>, of the reciprocal rounded up otherwise.
\<close>
definition flog2 :: "rat \<Rightarrow> int" where
  "flog2 a =
     (if 1 \<le> a then int (bit_length (nat \<lfloor>a\<rfloor>)) - 1
      else - int (bit_length (nat (\<lceil>1 / a\<rceil> - 1))))"

definition round_half_even :: "rat \<Rightarrow> int" where
  "round_half_even r =
     (let f = \<lfloor>r\<rfloor>; d = r - of_int f
      in if d < 1 / 2 then f else if 1 / 2 < d then f + 1 else if even f then f else f + 1)"

definition round_double :: "rat \<Rightarrow> pyfloat" where
  "round_double q =
     (if q = 0 then Finite 0
      else
        let a = \<bar>q\<bar>;
            e = max (flog2 a) (- 1022);
            u = pow2 (e - 52);
            r = of_int (round_half_even (a / u)) * u
        in if pow2 1024 \<le> r then (if q < 0 then MInf else PInf)
           else if r = 0 then (if q < 0 then MinusZero else Finite 0)
           else Finite (if q < 0 then - r else r))"

text \<open>\<^verbatim>\<open>x + y\<close> on floats.\<close>
fun float_add :: "pyfloat \<Rightarrow> pyfloat \<Rightarrow> pyfloat" where
  "float_add NaN y = NaN"
| "float_add x NaN = NaN"
| "float_add PInf MInf = NaN"
| "float_add MInf PInf = NaN"
| "float_add PInf y = PInf"
| "float_add x PInf = PInf"
| "float_add MInf y = MInf"
| "float_add x MInf = MInf"
| "float_add MinusZero y = y"
| "float_add x MinusZero = x"
| "float_add (Finite a) (Finite b) = round_double (a + b)"

definition fin_val :: "pyfloat \<Rightarrow> rat" where
  "fin_val x = (case x of Finite q \<Rightarrow> q | _ \<Rightarrow> 0)"

text \<open>\<^verbatim>\<open>x < y\<close> on floats: every comparison with NaN is false.\<close>
definition float_lt :: "pyfloat \<Rightarrow> pyfloat \<Rightarrow> bool" where
  "float_lt x y =
     (if x = NaN \<or> y = NaN then False
      else if x = MInf then y \<noteq> MInf
      else if y = PInf then x \<noteq> PInf
      else if x = PInf \<or> y = MInf then False
      else fin_val x < fin_val y)"

text \<open>\<^verbatim>\<open>x <= y\<close> on floats.\<close>
definition float_le :: "pyfloat \<Rightarrow> pyfloat \<Rightarrow> bool" where
  "float_le x y = (x \<noteq> NaN \<and> y \<noteq> NaN \<and> \<not> float_lt y x)"

text \<open>\<^verbatim>\<open>bool(x)\<close> on floats: both zeros are false, NaN is true.\<close>
definition float_truthy :: "pyfloat \<Rightarrow> bool" where
  "float_truthy x = (x \<noteq> Finite 0 \<and> x \<noteq> MinusZero)"

definition float_negative :: "pyfloat \<Rightarrow> bool" where
  "float_negative x = (case x of Finite q \<Rightarrow> q < 0 | MinusZero \<Rightarrow> True | MInf \<Rightarrow> True | _ \<Rightarrow> False)"

text \<open>\<^verbatim>\<open>f"{x:.2f}"\<close>: the exact value rounded to two decimals, ties to even.\<close>
definition format_2f :: "pyfloat \<Rightarrow> string" where
  "format_2f x =
     (case x of
        NaN \<Rightarrow> ''nan''
      | PInf \<Rightarrow> ''inf''
      | MInf \<Rightarrow> ''-inf''
      | _ \<Rightarrow>
         (let n = nat (round_half_even (\<bar>fin_val x\<bar> * 100))
          in (if float_negative x then ''-'' else '''') @ str_nat (n div 100) @ ''.''
               @ [digit_char (n mod 100 div 10), digit_char (n mod 10)]))"

subsection \<open>Parsing a float from a string\<close>

text \<open>
  \<^verbatim>\<open>float(s)\<close> for a string: surrounding whitespace is stripped, single underscores may
  stand between digits, then an optional sign and \<^verbatim>\<open>inf\<close>, \<^verbatim>\<open>infinity\<close>, \<^verbatim>\<open>nan\<close>
  (any case) or a decimal number with optional fraction and exponent. \<open>None\<close> stands
  for ValueError.
\<close>

fun underscores_ok :: "char \<Rightarrow> string \<Rightarrow> bool" where
  "underscores_ok prev [] = (prev \<noteq> CHR ''_'')"
| "underscores_ok prev (c # cs) =
     ((if c = CHR ''_'' then is_digit prev else if prev = CHR ''_'' then is_digit c else True)
      \<and> underscores_ok c cs)"

definition split_sign :: "string \<Rightarrow> bool \<times> string" where
  "split_sign s =
     (case s of
        [] \<Rightarrow> (False, [])
      | c # t \<Rightarrow> if c = CHR ''-'' then (True, t) else if c = CHR ''+'' then (False, t) else (False, s))"

definition parse_number :: "string \<Rightarrow> rat option" where
  "parse_number s =
     (let ip = takeWhile is_digit s;
          r1 = dropWhile is_digit s;
          has_dot = (r1 \<noteq> [] \<and> hd r1 = CHR ''.'');
          fp = (if has_dot then takeWhile is_digit (tl r1) else []);
          r2 = (if has_dot then dropWhile is_digit (tl r1) else r1);
          mant = of_nat (digits_val (ip @ fp)) / 10 ^ length fp
      in if ip = [] \<and> fp = [] then None
         else if r2 = [] then Some mant
         else if hd r2 = CHR ''e'' \<or> hd r2 = CHR ''E'' then
           (let (neg, ds) = split_sign (tl r2)
            in if ds \<noteq> [] \<and> list_all is_digit ds
               then Some (if neg then mant / 10 ^ digits_val ds else mant * 10 ^ digits_val ds)
               else None)
         else None)"

definition float_neg :: "pyfloat \<Rightarrow> pyfloat" where
  "float_neg x =
     (case x of Finite q \<Rightarrow> (if q = 0 then MinusZero else Finite (- q))
      | MinusZero \<Rightarrow> Finite 0 | PInf \<Rightarrow> MInf | MInf \<Rightarrow> PInf | NaN \<Rightarrow> NaN)"

definition float_of_str :: "string \<Rightarrow> pyfloat option" where
  "float_of_str s =
     (let s1 = float_strip s in
      if CHR ''_'' \<in> set s1 \<and> \<not> underscores_ok (CHR 0x00) s1 then None
      else
        let (neg, body) = split_sign (filter (\<lambda>c. c \<noteq> CHR ''_'') s1) in
        if lower body = ''inf'' \<or> lower body = ''infinity'' then Some (if neg then MInf else PInf)
        else if lower body = ''nan'' then Some NaN
        else (case parse_number body of
                None \<Rightarrow> None
              | Some q \<Rightarrow> Some (if neg then float_neg (round_double q) else round_double q)))"

subsection \<open>JSON values\<close>

datatype json =
    JNull
  | JBool bool
  | JInt int
  | JFloat pyfloat
  | JStr string
  | JList "json list"
  | JObj "(string \<times> json) list"

text \<open>\<^verbatim>\<open>d.get(k)\<close> and \<^verbatim>\<open>d.get(k, default)\<close> on a loaded dictionary.\<close>
definition dict_get :: "(string \<times> json) list \<Rightarrow> string \<Rightarrow> json \<Rightarrow> json" where
  "dict_get d k dflt = (case map_of d k of None \<Rightarrow> dflt | Some v \<Rightarrow> v)"

text \<open>\<^verbatim>\<open>bool(v)\<close>\<close>
fun truthy :: "json \<Rightarrow> bool" where
  "truthy JNull = False"
| "truthy (JBool b) = b"
| "truthy (JInt n) = (n \<noteq> 0)"
| "truthy (JFloat x) = float_truthy x"
| "truthy (JStr s) = (s \<noteq> [])"
| "truthy (JList xs) = (xs \<noteq> [])"
| "truthy (JObj kvs) = (kvs \<noteq> [])"

text \<open>\<^verbatim>\<open>isinstance(v, (int, float, str))\<close>; \<^verbatim>\<open>bool\<close> is a subclass of \<^verbatim>\<open>int\<close>.\<close>
fun is_int_float_str :: "json \<Rightarrow> bool" where
  "is_int_float_str (JBool b) = True"
| "is_int_float_str (JInt n) = True"
| "is_int_float_str (JFloat x) = True"
| "is_int_float_str (JStr s) = True"
| "is_int_float_str v = False"

text \<open>\<^verbatim>\<open>float(v)\<close>\<close>
fun py_float :: "json \<Rightarrow> py_error + pyfloat" where
  "py_float JNull = Inl TypeError"
| "py_float (JBool b) = Inr (Finite (if b then 1 else 0))"
| "py_float (JInt n) =
     (case round_double (of_int n) of
        PInf \<Rightarrow> Inl OverflowError
      | MInf \<Rightarrow> Inl OverflowError
      | x \<Rightarrow> Inr x)"
| "py_float (JFloat x) = Inr x"
| "py_float (JStr s) = (case float_of_str s of None \<Rightarrow> Inl ValueError | Some x \<Rightarrow> Inr x)"
| "py_float (JList xs) = Inl TypeError"
| "py_float (JObj kvs) = Inl TypeError"

section \<open>list.py\<close>

definition matches_filter :: "string \<Rightarrow> string \<Rightarrow> bool" where
  "matches_filter text filter_str = sublist (lower filter_str) (lower text)"

definition format_price :: "json \<Rightarrow> py_error + string" where
  "format_price price_value =
     (if price_value = JNull then Inr ''''
      else (case py_float price_value of
              Inr x \<Rightarrow> Inr (''$'' @ format_2f x)
            | Inl e \<Rightarrow> if e = TypeError \<or> e = ValueError then Inr '''' else Inl e))"

subsection \<open>The dataset\<close>

text \<open>
  \<^verbatim>\<open>load_data\<close> returns a list of provider dictionaries. A key that may be missing
  is an optional field; \<^verbatim>\<open>id\<close> and \<^verbatim>\<open>name\<close> are strings when present, \<^verbatim>\<open>models\<close> is a
  list of model dictionaries, and \<^verbatim>\<open>prices\<close> is any JSON value.
\<close>

record model =
  m_id :: "string option"
  m_name :: "string option"
  m_prices :: "json option"

record provider =
  p_id :: "string option"
  p_name :: "string option"
  p_models :: "model list option"

text \<open>\<^verbatim>\<open>d.get(key, default)\<close> on an optional field.\<close>
definition get_or :: "'a option \<Rightarrow> 'a \<Rightarrow> 'a" where
  "get_or field dflt = (case field of None \<Rightarrow> dflt | Some v \<Rightarrow> v)"

record row =
  Name :: string
  Input :: string
  Write :: string
  Read :: string
  Out :: string
  Model :: string
  PriceSum :: pyfloat
  Provider :: "string option"

subsection \<open>Building one row (lines 90 to 141)\<close>

text \<open>The conditional expression of lines 125 and 126.\<close>
definition float_or_zero :: "json \<Rightarrow> py_error + pyfloat" where
  "float_or_zero raw = (if truthy raw \<and> is_int_float_str raw then py_float raw else Inr (Finite 0))"

definition caught :: "py_error \<Rightarrow> bool" where
  "caught e = (e = TypeError \<or> e = ValueError)"

text \<open>
  Lines 120 to 129. An exception caught while converting \<^verbatim>\<open>input_raw\<close> leaves both
  values at 0.0; one caught while converting \<^verbatim>\<open>output_raw\<close> keeps \<^verbatim>\<open>input_val\<close>.
\<close>
definition price_sum_of :: "(string \<times> json) list \<Rightarrow> py_error + pyfloat" where
  "price_sum_of prices =
     (let input_raw = dict_get prices ''input_mtok'' (JInt 0);
          output_raw = dict_get prices ''output_mtok'' (JInt 0)
      in case float_or_zero input_raw of
           Inl e \<Rightarrow> if caught e then Inr (float_add (Finite 0) (Finite 0)) else Inl e
         | Inr input_val \<Rightarrow>
             (case float_or_zero output_raw of
                Inl e \<Rightarrow> if caught e then Inr (float_add input_val (Finite 0)) else Inl e
              | Inr output_val \<Rightarrow> Inr (float_add input_val output_val)))"

definition bind_e :: "'e + 'a \<Rightarrow> ('a \<Rightarrow> 'e + 'b) \<Rightarrow> 'e + 'b" where
  "bind_e m f = (case m of Inl e \<Rightarrow> Inl e | Inr x \<Rightarrow> f x)"

text \<open>Lines 106 to 111: a list, or anything else that is not a dictionary, is no prices.\<close>
definition prices_dict :: "json \<Rightarrow> (string \<times> json) list" where
  "prices_dict prices_raw = (case prices_raw of JObj kvs \<Rightarrow> kvs | _ \<Rightarrow> [])"

text \<open>Lines 103 to 111: the dictionary \<^verbatim>\<open>prices\<close> of a model.\<close>
definition prices_of :: "model \<Rightarrow> (string \<times> json) list" where
  "prices_of m = prices_dict (get_or (m_prices m) (JObj []))"

definition make_row :: "model \<Rightarrow> py_error + row" where
  "make_row m =
     (let model_id = get_or (m_id m) '''';
          model_name = get_or (m_name m) '''';
          prices = prices_of m
      in bind_e (format_price (dict_get prices ''input_mtok'' JNull)) (\<lambda>input_price.
         bind_e (format_price (dict_get prices ''cache_write_mtok'' JNull)) (\<lambda>write_price.
         bind_e (format_price (dict_get prices ''cache_read_mtok'' JNull)) (\<lambda>read_price.
         bind_e (format_price (dict_get prices ''output_mtok'' JNull)) (\<lambda>out_price.
         bind_e (price_sum_of prices) (\<lambda>price_sum.
           Inr \<lparr>Name = (if model_name \<noteq> '''' then model_name else model_id),
                Input = input_price, Write = write_price, Read = read_price, Out = out_price,
                Model = model_id, PriceSum = price_sum, Provider = None\<rparr>))))))"

subsection \<open>print_table (lines 187 to 222)\<close>

text \<open>\<^verbatim>\<open>str(row.get(col, ""))\<close>\<close>
definition cell :: "string \<Rightarrow> row \<Rightarrow> string" where
  "cell col r =
     (if col = ''Provider'' then get_or (Provider r) ''''
      else if col = ''Name'' then Name r
      else if col = ''Input'' then Input r
      else if col = ''Write'' then Write r
      else if col = ''Read'' then Read r
      else if col = ''Out'' then Out r
      else if col = ''Model'' then Model r
      else '''')"

definition columns_of :: "row list \<Rightarrow> string list" where
  "columns_of rows =
     (if list_ex (\<lambda>r. Provider r \<noteq> None) rows
      then [''Provider'', ''Name'', ''Input'', ''Write'', ''Read'', ''Out'', ''Model'']
      else [''Name'', ''Input'', ''Write'', ''Read'', ''Out'', ''Model''])"

definition col_width :: "row list \<Rightarrow> string \<Rightarrow> nat" where
  "col_width rows col = max (length col) (fold max (map (\<lambda>r. length (cell col r)) rows) 0)"

definition pad_cell :: "row list \<Rightarrow> string \<Rightarrow> string \<Rightarrow> string" where
  "pad_cell rows col s =
     (if col \<in> set [''Name'', ''Model'', ''Provider''] then ljust (col_width rows col) s
      else rjust (col_width rows col) s)"

text \<open>The lines printed by \<^verbatim>\<open>print_table(rows)\<close>, one per \<^verbatim>\<open>print\<close> call.\<close>
definition print_table :: "row list \<Rightarrow> string list" where
  "print_table rows =
     (if rows = [] then []
      else
        let columns = columns_of rows;
            header = join '' | '' (map (\<lambda>col. pad_cell rows col col) columns);
            separator = join ''-+-'' (map (\<lambda>col. replicate (col_width rows col) CHR ''-'') columns)
        in header # separator
             # map (\<lambda>r. join '' | '' (map (\<lambda>col. pad_cell rows col (cell col r)) columns)) rows)"

subsection \<open>list_prices (lines 52 to 184)\<close>

record lstate =
  matched_any :: bool
  current_provider :: "string option"
  table_rows :: "row list"
  all_rows :: "row list"
  printed :: "string list"

text \<open>
  Code that prints either returns a value or is left by an exception; the exception is
  kept together with what had been printed before it.
\<close>
type_synonym 'a outcome = "(py_error \<times> string list) + 'a"

text \<open>A \<^verbatim>\<open>for\<close> loop whose body may raise.\<close>
fun for_each :: "('s \<Rightarrow> 'a \<Rightarrow> 'e + 's) \<Rightarrow> 's \<Rightarrow> 'a list \<Rightarrow> 'e + 's" where
  "for_each body st [] = Inr st"
| "for_each body st (x # xs) =
     (case body st x of Inl e \<Rightarrow> Inl e | Inr st' \<Rightarrow> for_each body st' xs)"

text \<open>\<^verbatim>\<open>f"{'='*120}"\<close>, printed by lines 154 and 173.\<close>
definition equals_line :: string where
  "equals_line = replicate 120 CHR ''=''"

text \<open>\<^verbatim>\<open>f"\n{'='*120}"\<close>, printed by lines 152 and 171.\<close>
definition rule_line :: string where
  "rule_line = CHR 0x0A # equals_line"

text \<open>The three lines printed by lines 152 to 154.\<close>
definition provider_banner :: "string \<Rightarrow> string \<Rightarrow> string list" where
  "provider_banner provider_name provider_id =
     [rule_line, ''Provider: '' @ provider_name @ '' ('' @ provider_id @ '')'', equals_line]"

text \<open>Lines 70 to 74.\<close>
definition provider_matches :: "provider \<Rightarrow> string \<Rightarrow> bool" where
  "provider_matches provider filter_str =
     (filter_str = ''''
      \<or> matches_filter (get_or (p_id provider) '''') filter_str
      \<or> matches_filter (get_or (p_name provider) '''') filter_str)"

text \<open>Lines 80 and 81, and again lines 95 to 98.\<close>
definition model_matches :: "model \<Rightarrow> string \<Rightarrow> bool" where
  "model_matches m filter_str =
     (matches_filter (get_or (m_id m) '''') filter_str
      \<or> matches_filter (get_or (m_name m) '''') filter_str)"

text \<open>Lines 144 to 155: unsorted mode prints as it goes.\<close>
definition emit_row :: "provider \<Rightarrow> row \<Rightarrow> lstate \<Rightarrow> lstate" where
  "emit_row provider r st =
     (let provider_name = get_or (p_name provider) '''';
          provider_id = get_or (p_id provider) '''';
          st1 = (if current_provider st \<noteq> Some provider_name
                 then (let st0 = (if table_rows st \<noteq> []
                                  then st\<lparr>printed := printed st @ print_table (table_rows st),
                                          table_rows := []\<rparr>
                                  else st)
                       in st0\<lparr>current_provider := Some provider_name,
                               printed := printed st0 @ provider_banner provider_name provider_id\<rparr>)
                 else st)
      in st1\<lparr>table_rows := table_rows st1 @ [r]\<rparr>)"

text \<open>The body of the loop over the models of one provider (lines 89 to 155).\<close>
definition model_step ::
  "string \<Rightarrow> bool \<Rightarrow> provider \<Rightarrow> bool \<Rightarrow> lstate \<Rightarrow> model \<Rightarrow> lstate outcome" where
  "model_step filter_str sort_by_price provider prov_matches st m =
     (if \<not> prov_matches \<and> filter_str \<noteq> '''' \<and> \<not> model_matches m filter_str then Inr st
      else (case make_row m of
              Inl e \<Rightarrow> Inl (e, printed st)
            | Inr r \<Rightarrow>
                (let st1 = st\<lparr>matched_any := True, all_rows := all_rows st @ [r]\<rparr>
                 in Inr (if sort_by_price then st1 else emit_row provider r st1))))"

text \<open>The body of the loop over the providers (lines 65 to 155).\<close>
definition provider_step :: "string \<Rightarrow> bool \<Rightarrow> lstate \<Rightarrow> provider \<Rightarrow> lstate outcome" where
  "provider_step filter_str sort_by_price st provider =
     (let prov_matches = provider_matches provider filter_str;
          models = get_or (p_models provider) []
      in if \<not> prov_matches \<and> \<not> list_ex (\<lambda>m. model_matches m filter_str) models then Inr st
         else for_each (model_step filter_str sort_by_price provider prov_matches) st models)"

definition init_state :: lstate where
  "init_state = \<lparr>matched_any = False, current_provider = None, table_rows = [], all_rows = [],
                 printed = []\<rparr>"

text \<open>The loop of lines 65 to 155 from the initial state.\<close>
definition scan :: "provider list \<Rightarrow> string \<Rightarrow> bool \<Rightarrow> lstate outcome" where
  "scan data filter_str sort_by_price =
     for_each (provider_step filter_str sort_by_price) init_state data"

text \<open>
  \<^verbatim>\<open>all_rows.sort(key=lambda x: x["PriceSum"])\<close>: a stable sort that compares keys with
  \<^verbatim>\<open><\<close> only. When no key is NaN, \<^verbatim>\<open><\<close> orders the keys and every stable sort gives the
  same list, which this insertion sort computes. With a NaN key the comparisons are not
  an order and the result of \<^verbatim>\<open>list.sort\<close> is a matter of its algorithm; it need not be
  the list computed here.
\<close>
fun insort_row :: "row \<Rightarrow> row list \<Rightarrow> row list" where
  "insort_row x [] = [x]"
| "insort_row x (y # ys) =
     (if float_lt (PriceSum y) (PriceSum x) then y # insort_row x ys else x # y # ys)"

definition sort_rows :: "row list \<Rightarrow> row list" where
  "sort_rows rows = foldr insort_row rows []"

text \<open>
  Lines 164 to 168 for one row: the \<^verbatim>\<open>break\<close> leaves the loop over the models of one
  provider, and the loop over the providers goes on.
\<close>
definition annotate_row :: "provider list \<Rightarrow> row \<Rightarrow> row" where
  "annotate_row data r =
     fold (\<lambda>provider r'.
             if list_ex (\<lambda>m. m_id m = Some (Model r')) (get_or (p_models provider) [])
             then r'\<lparr>Provider := Some (get_or (p_name provider) '''')\<rparr>
             else r')
          data r"

record lresult =
  printed_lines :: "string list"
  rows :: "row list"
  exit_code :: int

definition normalize_filter :: "string \<Rightarrow> string" where
  "normalize_filter filter_str = (if lower filter_str = ''all'' then '''' else filter_str)"

definition no_match_message :: "string \<Rightarrow> string" where
  "no_match_message filter_str =
     CHR 0x0A # ''No providers or models matching '' @ [CHR 0x27] @ filter_str @ [CHR 0x27] @ '' found.''"

definition list_prices :: "provider list \<Rightarrow> string \<Rightarrow> bool \<Rightarrow> lresult outcome" where
  "list_prices data filter_str0 sort_by_price =
     (let filter_str = normalize_filter filter_str0
      in case scan data filter_str sort_by_price of
           Inl e \<Rightarrow> Inl e
         | Inr st \<Rightarrow>
             (let final_rows = (if sort_by_price then map (annotate_row data) (sort_rows (all_rows st))
                                else all_rows st);
                  out = (if sort_by_price
                         then printed st
                              @ [rule_line, ''All Models Sorted by Price (Input + Output)'',
                                 equals_line]
                              @ print_table final_rows
                         else printed st
                              @ (if table_rows st \<noteq> [] then print_table (table_rows st) else []))
              in if filter_str \<noteq> '''' \<and> \<not> matched_any st
                 then Inr \<lparr>printed_lines = out @ [no_match_message filter_str], rows = final_rows,
                           exit_code = 1\<rparr>
                 else Inr \<lparr>printed_lines = out, rows = final_rows, exit_code = 0\<rparr>))"

subsection \<open>main (lines 225 to 299)\<close>

text \<open>\<^verbatim>\<open>max(...)\<close> over lengths: an empty sequence raises ValueError.\<close>
definition py_max_len :: "nat list \<Rightarrow> py_error + nat" where
  "py_max_len ns = (case ns of [] \<Rightarrow> Inl ValueError | n # rest \<Rightarrow> Inr (fold max rest n))"

text \<open>\<^verbatim>\<open>min(prices)\<close> and \<^verbatim>\<open>max(prices)\<close> on a non-empty list of floats.\<close>
definition float_min :: "pyfloat \<Rightarrow> pyfloat list \<Rightarrow> pyfloat" where
  "float_min x xs = fold (\<lambda>y best. if float_lt y best then y else best) xs x"

definition float_max :: "pyfloat \<Rightarrow> pyfloat list \<Rightarrow> pyfloat" where
  "float_max x xs = fold (\<lambda>y best. if float_lt best y then y else best) xs x"

text \<open>The conditional expression of lines 259 and 260: no type test here.\<close>
definition float_if_truthy :: "json \<Rightarrow> py_error + pyfloat" where
  "float_if_truthy v = (if truthy v then py_float v else Inr (Finite 0))"

text \<open>Lines 253 to 264 for one model: the prices list with what this model appends.\<close>
definition summary_price :: "pyfloat list \<Rightarrow> model \<Rightarrow> py_error + pyfloat list" where
  "summary_price prices m =
     (case get_or (m_prices m) (JObj []) of
        JObj kvs \<Rightarrow>
          (case float_if_truthy (dict_get kvs ''input_mtok'' (JInt 0)) of
             Inl e \<Rightarrow> if caught e then Inr prices else Inl e
           | Inr input_val \<Rightarrow>
               (case float_if_truthy (dict_get kvs ''output_mtok'' (JInt 0)) of
                  Inl e \<Rightarrow> if caught e then Inr prices else Inl e
                | Inr output_val \<Rightarrow>
                    Inr (if float_lt (Finite 0) input_val \<or> float_lt (Finite 0) output_val
                         then prices @ [float_add input_val output_val] else prices)))
      | _ \<Rightarrow> Inr prices)"

record psummary =
  s_name :: string
  s_id :: string
  s_count :: nat
  s_min :: pyfloat
  s_max :: pyfloat

text \<open>Lines 244 to 269: the body of the loop that fills \<^verbatim>\<open>providers\<close>.\<close>
definition summary_step :: "psummary list \<Rightarrow> provider \<Rightarrow> py_error + psummary list" where
  "summary_step providers provider =
     (let models = get_or (p_models provider) []
      in case for_each summary_price [] models of
           Inl e \<Rightarrow> Inl e
         | Inr prices \<Rightarrow>
             Inr (providers
                  @ [\<lparr>s_name = get_or (p_name provider) '''', s_id = get_or (p_id provider) '''',
                       s_count = length models,
                       s_min = (case prices of [] \<Rightarrow> Finite 0 | x # xs \<Rightarrow> float_min x xs),
                       s_max = (case prices of [] \<Rightarrow> Finite 0 | x # xs \<Rightarrow> float_max x xs)\<rparr>]))"

definition price_or_na :: "pyfloat \<Rightarrow> string" where
  "price_or_na p = (if float_lt (Finite 0) p then ''$'' @ format_2f p else ''N/A'')"

definition summary_line :: "nat \<Rightarrow> nat \<Rightarrow> psummary \<Rightarrow> string" where
  "summary_line max_name_len max_id_len s =
     ljust max_name_len (s_name s) @ '' | '' @ ljust max_id_len (s_id s) @ '' | ''
       @ rjust 7 (str_nat (s_count s)) @ '' | '' @ rjust 10 (price_or_na (s_min s)) @ '' | ''
       @ rjust 10 (price_or_na (s_max s))"

text \<open>Lines 276 to 292, and the prompt that \<^verbatim>\<open>input\<close> writes.\<close>
definition summary_lines :: "nat \<Rightarrow> nat \<Rightarrow> psummary list \<Rightarrow> string list" where
  "summary_lines max_name_len max_id_len providers =
     (let total_width = max_name_len + max_id_len + 50;
          bar = replicate total_width CHR ''=''
      in [bar, ''Available Providers:'', bar,
          ljust max_name_len ''Name'' @ '' | '' @ ljust max_id_len ''ID'' @ '' | ''
            @ rjust 7 ''Models'' @ '' | '' @ rjust 10 ''Min Price'' @ '' | '' @ rjust 10 ''Max Price'',
          replicate max_name_len CHR ''-'' @ ''-+-'' @ replicate max_id_len CHR ''-'' @ ''-+-''
            @ replicate 7 CHR ''-'' @ ''-+-'' @ replicate 10 CHR ''-'' @ ''-+-'' @ replicate 10 CHR ''-'']
         @ map (summary_line max_name_len max_id_len) providers
         @ [bar, ''Enter a filter (provider name/id, model name, or '' @ [CHR 0x27] @ ''all''
                   @ [CHR 0x27] @ ''): ''])"

text \<open>Lines 233 to 237: the last argument that is not \<^verbatim>\<open>--sort\<close> is the filter.\<close>
definition parse_args :: "string list \<Rightarrow> string \<times> bool" where
  "parse_args args =
     fold (\<lambda>arg (filter_str, sort_by_price).
             if arg = ''--sort'' then (filter_str, True) else (arg, sort_by_price))
          args ('''', False)"

definition after_lines :: "string list \<Rightarrow> lresult outcome \<Rightarrow> lresult outcome" where
  "after_lines ls r =
     (case r of
        Inl (e, out) \<Rightarrow> Inl (e, ls @ out)
      | Inr res \<Rightarrow> Inr (res\<lparr>printed_lines := ls @ printed_lines res\<rparr>))"

text \<open>
  \<open>args\<close> is \<^verbatim>\<open>sys.argv[1:]\<close>, \<open>typed\<close> the line that \<^verbatim>\<open>input\<close> reads (\<open>None\<close> at end of
  input), \<open>data\<close> what \<^verbatim>\<open>load_data\<close> returns. The result carries the value that
  \<^verbatim>\<open>main\<close> returns to \<^verbatim>\<open>sys.exit\<close>.
\<close>
definition main :: "string list \<Rightarrow> string option \<Rightarrow> provider list \<Rightarrow> lresult outcome" where
  "main args typed data =
     (if args \<noteq> [] then
        (let (filter_str, sort_by_price) = parse_args args
         in list_prices data filter_str sort_by_price)
      else
        (case for_each summary_step [] data of
           Inl e \<Rightarrow> Inl (e, [])
         | Inr providers \<Rightarrow>
             (case py_max_len (map (\<lambda>p. length (s_name p)) providers) of
                Inl e \<Rightarrow> Inl (e, [])
              | Inr max_name_len \<Rightarrow>
                  (case py_max_len (map (\<lambda>p. length (s_id p)) providers) of
                     Inl e \<Rightarrow> Inl (e, [])
                   | Inr max_id_len \<Rightarrow>
                       (let ls = summary_lines max_name_len max_id_len providers
                        in case typed of
                             None \<Rightarrow> Inl (EOFError, ls)
                           | Some line \<Rightarrow>
                               (let filter_str = strip line
                                in if filter_str = ''''
                                   then Inr \<lparr>printed_lines = ls @ [''No filter provided. Exiting.''],
                                             rows = [], exit_code = 0\<rparr>
                                   else after_lines ls (list_prices data filter_str False)))))))"

text \<open>
  Lines 302 and 303, \<^verbatim>\<open>sys.exit(main())\<close>: the exit status of the process is the value
  that \<^verbatim>\<open>main\<close> returns. An exception that leaves \<^verbatim>\<open>main\<close> is caught nowhere, and the
  interpreter ends the process with status 1.
\<close>
definition exit_status :: "lresult outcome \<Rightarrow> int" where
  "exit_status r = (case r of Inl e \<Rightarrow> 1 | Inr res \<Rightarrow> exit_code res)"

text \<open>
  The filter string that the test of line 180 reads: \<^verbatim>\<open>filter_str\<close> of \<^verbatim>\<open>main\<close> (line 228,
  then line 237 or line 293) after lines 57 and 58.
\<close>
definition effective_filter :: "string list \<Rightarrow> string option \<Rightarrow> string" where
  "effective_filter args typed =
     normalize_filter (if args \<noteq> [] then fst (parse_args args)
                       else (case typed of None \<Rightarrow> '''' | Some line \<Rightarrow> strip line))"

section \<open>Notions used to state the properties\<close>

text \<open>The models of a provider, in source order.\<close>
definition models_of :: "provider \<Rightarrow> model list" where
  "models_of P = get_or (p_models P) []"

text \<open>The models of a provider that the loop does not skip.\<close>
definition kept_models :: "string \<Rightarrow> provider \<Rightarrow> model list" where
  "kept_models f P =
     (if provider_matches P f then models_of P else filter (\<lambda>m. model_matches m f) (models_of P))"

text \<open>What the loop body does to the state for a row it has built.\<close>
definition add_row :: "bool \<Rightarrow> provider \<Rightarrow> lstate \<Rightarrow> row \<Rightarrow> lstate" where
  "add_row sort_by_price P st r =
     (let st1 = st\<lparr>matched_any := True, all_rows := all_rows st @ [r]\<rparr>
      in if sort_by_price then st1 else emit_row P r st1)"

text \<open>The rows that the loop produces for a dataset, in traversal order.\<close>
definition flattened :: "provider list \<Rightarrow> string \<Rightarrow> row list" where
  "flattened data f = (case scan data f False of Inr st \<Rightarrow> all_rows st | Inl e \<Rightarrow> [])"


text \<open>\<^verbatim>\<open>x == y\<close> on floats that are not NaN.\<close>
definition float_eq :: "pyfloat \<Rightarrow> pyfloat \<Rightarrow> bool" where
  "float_eq x y = (x \<noteq> NaN \<and> y \<noteq> NaN \<and> \<not> float_lt x y \<and> \<not> float_lt y x)"

text \<open>The rows built for a list of models, and whether every one of them could be built.\<close>
definition built_rows :: "model list \<Rightarrow> row list" where
  "built_rows ms = concat (map (\<lambda>m. case make_row m of Inr r \<Rightarrow> [r] | Inl e \<Rightarrow> []) ms)"

definition all_built :: "model list \<Rightarrow> bool" where
  "all_built ms = list_all (\<lambda>m. case make_row m of Inr r \<Rightarrow> True | Inl e \<Rightarrow> False) ms"

definition add_provider :: "string \<Rightarrow> bool \<Rightarrow> lstate \<Rightarrow> provider \<Rightarrow> lstate" where
  "add_provider f s st P = foldl (add_row s P) st (built_rows (kept_models f P))"

section \<open>Example datasets\<close>




definition sorted_title :: "string list" where
  "sorted_title =
     [CHR 0x0A # ''========================================================================================================================'',
      ''All Models Sorted by Price (Input + Output)'',
      ''========================================================================================================================'']"

definition tiny_model :: model where
  "tiny_model = \<lparr>m_id = Some ''m1'', m_name = Some ''Tiny'',
                  m_prices = Some (JObj [(''input_mtok'', JInt 1), (''output_mtok'', JInt 2)])\<rparr>"

definition acme :: provider where
  "acme = \<lparr>p_id = Some ''acme'', p_name = Some ''Acme'', p_models = Some [tiny_model]\<rparr>"

text \<open>The rows of a dataset in traversal order, when every row can be built.\<close>
definition traversal :: "string \<Rightarrow> provider list \<Rightarrow> row list" where
  "traversal f data = concat (map (\<lambda>P. built_rows (kept_models f P)) data)"

definition big_model :: model where
  "big_model = \<lparr>m_id = Some ''m2'', m_name = None,
                 m_prices = Some (JObj [(''input_mtok'', JInt 5)])\<rparr>"


definition tiny_row :: row where
  "tiny_row = \<lparr>Name = ''Tiny'', Input = ''$1.00'', Write = '''', Read = '''', Out = ''$2.00'',
                Model = ''m1'', PriceSum = Finite 3, Provider = None\<rparr>"

definition big_row :: row where
  "big_row = \<lparr>Name = ''m2'', Input = ''$5.00'', Write = '''', Read = '''', Out = '''',
               Model = ''m2'', PriceSum = Finite 5, Provider = None\<rparr>"




definition mid_model :: model where
  "mid_model = \<lparr>m_id = Some ''m3'', m_name = Some ''Mid'',
                 m_prices = Some (JObj [(''output_mtok'', JInt 3)])\<rparr>"

definition mid_row :: row where
  "mid_row = \<lparr>Name = ''Mid'', Input = '''', Write = '''', Read = '''', Out = ''$3.00'',
               Model = ''m3'', PriceSum = Finite 3, Provider = None\<rparr>"

definition delta :: provider where
  "delta = \<lparr>p_id = Some ''delta'', p_name = Some ''Delta'',
             p_models = Some [big_model, tiny_model, mid_model]\<rparr>"

definition nan_model :: model where
  "nan_model = \<lparr>m_id = Some ''odd'', m_name = None,
                 m_prices = Some (JObj [(''input_mtok'', JStr ''nan'')])\<rparr>"

definition nan_row :: row where
  "nan_row = \<lparr>Name = ''odd'', Input = ''$nan'', Write = '''', Read = '''', Out = '''',
               Model = ''odd'', PriceSum = NaN, Provider = None\<rparr>"

definition gamma :: provider where
  "gamma = \<lparr>p_id = Some ''gamma'', p_name = Some ''Gamma'',
             p_models = Some [big_model, nan_model, tiny_model]\<rparr>"

text \<open>What \<^verbatim>\<open>python list.py all --sort\<close> prints and returns for the dataset \<open>[delta]\<close>.\<close>
definition delta_sorted :: lresult where
  "delta_sorted =
     \<lparr>printed_lines =
        sorted_title @
        [         ''Provider | Name | Input | Write | Read |   Out | Model'',
         ''---------+------+-------+-------+------+-------+------'',
         ''Delta    | Tiny | $1.00 |       |      | $2.00 | m1   '',
         ''Delta    | Mid  |       |       |      | $3.00 | m3   '',
         ''Delta    | m2   | $5.00 |       |      |       | m2   ''],
      rows = [tiny_row\<lparr>Provider := Some ''Delta''\<rparr>, mid_row\<lparr>Provider := Some ''Delta''\<rparr>,
              big_row\<lparr>Provider := Some ''Delta''\<rparr>],
      exit_code = 0\<rparr>"

text \<open>What \<^verbatim>\<open>python list.py all --sort\<close> prints and returns for the dataset \<open>[gamma]\<close>.\<close>
definition gamma_sorted :: lresult where
  "gamma_sorted =
     \<lparr>printed_lines =
        sorted_title @
        [         ''Provider | Name | Input | Write | Read |   Out | Model'',
         ''---------+------+-------+-------+------+-------+------'',
         ''Gamma    | m2   | $5.00 |       |      |       | m2   '',
         ''Gamma    | odd  |  $nan |       |      |       | odd  '',
         ''Gamma    | Tiny | $1.00 |       |      | $2.00 | m1   ''],
      rows = [big_row\<lparr>Provider := Some ''Gamma''\<rparr>, nan_row\<lparr>Provider := Some ''Gamma''\<rparr>,
              tiny_row\<lparr>Provider := Some ''Gamma''\<rparr>],
      exit_code = 0\<rparr>"

definition first_p :: provider where
  "first_p = \<lparr>p_id = Some ''p1'', p_name = Some ''First'', p_models = Some [tiny_model]\<rparr>"

definition second_p :: provider where
  "second_p = \<lparr>p_id = Some ''p2'', p_name = Some ''Second'',
                p_models = Some [big_model\<lparr>m_id := Some ''m1''\<rparr>]\<rparr>"



definition pname :: "provider \<Rightarrow> string" where
  "pname P = get_or (p_name P) ''''"






definition relabelled_row :: row where
  "relabelled_row = \<lparr>Name = ''m1'', Input = ''$5.00'', Write = '''', Read = '''', Out = '''',
                      Model = ''m1'', PriceSum = Finite 5, Provider = None\<rparr>"

text \<open>What \<^verbatim>\<open>python list.py all --sort\<close> prints and returns for \<open>[first_p, second_p]\<close>.\<close>
definition both_second :: lresult where
  "both_second =
     \<lparr>printed_lines =
        sorted_title @
        [         ''Provider | Name | Input | Write | Read |   Out | Model'',
         ''---------+------+-------+-------+------+-------+------'',
         ''Second   | Tiny | $1.00 |       |      | $2.00 | m1   '',
         ''Second   | m1   | $5.00 |       |      |       | m1   ''],
      rows = [tiny_row\<lparr>Provider := Some ''Second''\<rparr>, relabelled_row\<lparr>Provider := Some ''Second''\<rparr>],
      exit_code = 0\<rparr>"

text \<open>How a price value enters the sum: not at all, or as a float that is not negative.\<close>
definition no_number :: "json \<Rightarrow> bool" where
  "no_number v = (if truthy v \<and> is_int_float_str v then py_float v = Inl ValueError else True)"

definition nonneg_number :: "json \<Rightarrow> bool" where
  "nonneg_number v = (case py_float v of Inr x \<Rightarrow> float_le (Finite 0) x | Inl e \<Rightarrow> False)"

definition contribution :: "json \<Rightarrow> pyfloat" where
  "contribution v =
     (if truthy v \<and> is_int_float_str v
      then (case py_float v of Inr x \<Rightarrow> x | Inl e \<Rightarrow> Finite 0)
      else Finite 0)"

text \<open>A model whose input price is an integer too large for a double.\<close>
definition over_model :: model where
  "over_model = \<lparr>m_id = Some ''m9'', m_name = Some ''Huge'',
                  m_prices = Some (JObj [(''input_mtok'', JInt (2 ^ 1024))])\<rparr>"

definition over_acme :: provider where
  "over_acme = \<lparr>p_id = Some ''acme'', p_name = Some ''Acme'',
                 p_models = Some [tiny_model, over_model]\<rparr>"

text \<open>The entry of \<open>acme\<close> in the table of providers that \<^verbatim>\<open>main\<close> prints without arguments.\<close>
definition acme_summary :: psummary where
  "acme_summary = \<lparr>s_name = ''Acme'', s_id = ''acme'', s_count = 1, s_min = Finite 3,
                    s_max = Finite 3\<rparr>"

definition neg_model :: model where
  "neg_model = \<lparr>m_id = Some ''m4'', m_name = Some ''Rebate'',
                 m_prices = Some (JObj [(''input_mtok'', JInt (- 1))])\<rparr>"

text \<open>The shape of a price printed with two decimals: \<^verbatim>\<open>$\<close>, an optional sign, digits, a point, two digits.\<close>
definition is_finite :: "pyfloat \<Rightarrow> bool" where
  "is_finite x = (case x of Finite q \<Rightarrow> True | MinusZero \<Rightarrow> True | _ \<Rightarrow> False)"

definition two_decimal :: "string \<Rightarrow> bool" where
  "two_decimal s =
     (let body = (if s \<noteq> [] \<and> hd s = CHR ''-'' then tl s else s);
          int_part = takeWhile is_digit body;
          rest = dropWhile is_digit body
      in int_part \<noteq> []
         \<and> (case rest of [d, a, b] \<Rightarrow> d = CHR ''.'' \<and> is_digit a \<and> is_digit b | _ \<Rightarrow> False))"

definition dollar_two_decimal :: "string \<Rightarrow> bool" where
  "dollar_two_decimal s = (case s of [] \<Rightarrow> False | c # t \<Rightarrow> c = CHR ''$'' \<and> two_decimal t)"

section \<open>The loops\<close>

lemma for_each_append:
  "for_each body st (xs @ ys) =
     (case for_each body st xs of Inl e \<Rightarrow> Inl e | Inr st' \<Rightarrow> for_each body st' ys)"
  by (induction xs arbitrary: st) (auto split: sum.splits)

lemma model_step_skip:
  "\<not> pm \<and> f \<noteq> '''' \<and> \<not> model_matches m f \<Longrightarrow> model_step f s P pm st m = Inr st"
  by (simp add: model_step_def)

lemma model_step_keep:
  "\<not> (\<not> pm \<and> f \<noteq> '''' \<and> \<not> model_matches m f) \<Longrightarrow>
     model_step f s P pm st m =
       (case make_row m of Inl e \<Rightarrow> Inl (e, printed st) | Inr r \<Rightarrow> Inr (add_row s P st r))"
  by (auto simp: model_step_def add_row_def Let_def split: sum.splits)

lemma model_loop_result:
  assumes "for_each (model_step f s P pm) st ms = Inr st'"
  shows "\<exists>rs. map make_row (filter (\<lambda>m. pm \<or> f = '''' \<or> model_matches m f) ms) = map Inr rs
              \<and> st' = foldl (add_row s P) st rs"
  using assms
proof (induction ms arbitrary: st)
  case Nil
  then show ?case by simp
next
  case (Cons m ms)
  show ?case
  proof (cases "\<not> pm \<and> f \<noteq> '''' \<and> \<not> model_matches m f")
    case True
    with Cons.prems have "for_each (model_step f s P pm) st ms = Inr st'"
      by (simp add: model_step_skip)
    from Cons.IH [OF this] True show ?thesis by auto
  next
    case False
    then obtain r where r: "make_row m = Inr r"
      using Cons.prems by (cases "make_row m") (simp_all add: model_step_keep)
    with False Cons.prems have "for_each (model_step f s P pm) (add_row s P st r) ms = Inr st'"
      by (simp add: model_step_keep)
    from Cons.IH [OF this] obtain rs where
      rs: "map make_row (filter (\<lambda>m. pm \<or> f = '''' \<or> model_matches m f) ms) = map Inr rs"
        "st' = foldl (add_row s P) (add_row s P st r) rs"
      by blast
    have "map make_row (filter (\<lambda>m. pm \<or> f = '''' \<or> model_matches m f) (m # ms)) = map Inr (r # rs)"
      using False r rs(1) by auto
    moreover have "st' = foldl (add_row s P) st (r # rs)"
      using rs(2) by simp
    ultimately show ?thesis by blast
  qed
qed

lemma model_loop_returns:
  assumes "map make_row (filter (\<lambda>m. pm \<or> f = '''' \<or> model_matches m f) ms) = map Inr rs"
  shows "for_each (model_step f s P pm) st ms = Inr (foldl (add_row s P) st rs)"
  using assms
proof (induction ms arbitrary: st rs)
  case Nil
  then show ?case by simp
next
  case (Cons m ms)
  show ?case
  proof (cases "\<not> pm \<and> f \<noteq> '''' \<and> \<not> model_matches m f")
    case True
    with Cons.prems have "map make_row (filter (\<lambda>m. pm \<or> f = '''' \<or> model_matches m f) ms) = map Inr rs"
      by auto
    from Cons.IH [OF this] True show ?thesis by (simp add: model_step_skip)
  next
    case False
    with Cons.prems obtain r rs' where r: "rs = r # rs'" "make_row m = Inr r"
      "map make_row (filter (\<lambda>m. pm \<or> f = '''' \<or> model_matches m f) ms) = map Inr rs'"
      by (cases rs) auto
    from Cons.IH [OF r(3)] False r(1,2) show ?thesis
      by (simp add: model_step_keep)
  qed
qed

lemma kept_filter:
  "filter (\<lambda>m. provider_matches P f \<or> f = '''' \<or> model_matches m f) (models_of P) = kept_models f P"
  by (auto simp: kept_models_def provider_matches_def intro: filter_cong)

lemma provider_step_result:
  assumes "provider_step f s st P = Inr st'"
  shows "\<exists>rs. map make_row (kept_models f P) = map Inr rs \<and> st' = foldl (add_row s P) st rs"
proof (cases "\<not> provider_matches P f \<and> \<not> list_ex (\<lambda>m. model_matches m f) (models_of P)")
  case True
  then have "kept_models f P = []"
    by (auto simp: kept_models_def list_ex_iff filter_empty_conv)
  moreover from True assms have "st' = st"
    by (simp add: provider_step_def models_of_def Let_def)
  ultimately show ?thesis by simp
next
  case False
  with assms have "for_each (model_step f s P (provider_matches P f)) st (models_of P) = Inr st'"
    by (auto simp: provider_step_def models_of_def Let_def)
  from model_loop_result [OF this] show ?thesis by (simp add: kept_filter)
qed

lemma provider_step_returns:
  assumes "map make_row (kept_models f P) = map Inr rs"
  shows "provider_step f s st P = Inr (foldl (add_row s P) st rs)"
proof (cases "\<not> provider_matches P f \<and> \<not> list_ex (\<lambda>m. model_matches m f) (models_of P)")
  case True
  then have "kept_models f P = []"
    by (auto simp: kept_models_def list_ex_iff filter_empty_conv)
  with assms have "rs = []" by simp
  with True show ?thesis by (simp add: provider_step_def models_of_def Let_def)
next
  case False
  have "for_each (model_step f s P (provider_matches P f)) st (models_of P)
          = Inr (foldl (add_row s P) st rs)"
    by (rule model_loop_returns) (simp add: kept_filter assms)
  with False show ?thesis by (auto simp: provider_step_def models_of_def Let_def)
qed

lemma map_make_row_iff:
  "map make_row ms = map Inr rs \<longleftrightarrow> all_built ms \<and> rs = built_rows ms"
proof (induction ms arbitrary: rs)
  case Nil
  then show ?case by (auto simp: all_built_def built_rows_def)
next
  case (Cons m ms)
  show ?case
  proof (cases "make_row m")
    case (Inl e)
    then show ?thesis by (cases rs) (auto simp: all_built_def)
  next
    case (Inr r)
    have "built_rows (m # ms) = r # built_rows ms" "all_built (m # ms) = all_built ms"
      using Inr by (simp_all add: built_rows_def all_built_def)
    then show ?thesis using Inr Cons.IH by (cases rs) auto
  qed
qed

lemma provider_step_iff:
  "provider_step f s st P = Inr st' \<longleftrightarrow> all_built (kept_models f P) \<and> st' = add_provider f s st P"
proof
  assume "provider_step f s st P = Inr st'"
  from provider_step_result [OF this] show "all_built (kept_models f P) \<and> st' = add_provider f s st P"
    by (auto simp: map_make_row_iff add_provider_def)
next
  assume a: "all_built (kept_models f P) \<and> st' = add_provider f s st P"
  then have "map make_row (kept_models f P) = map Inr (built_rows (kept_models f P))"
    by (simp add: map_make_row_iff)
  from provider_step_returns [OF this] a show "provider_step f s st P = Inr st'"
    by (simp add: add_provider_def)
qed

lemma provider_loop_iff:
  "for_each (provider_step f s) st data = Inr st' \<longleftrightarrow>
     (\<forall>P \<in> set data. all_built (kept_models f P)) \<and> st' = foldl (add_provider f s) st data"
proof (induction data arbitrary: st)
  case Nil
  then show ?case by auto
next
  case (Cons P data)
  show ?case
  proof (cases "provider_step f s st P")
    case (Inl e)
    then have "\<not> all_built (kept_models f P)"
      using provider_step_iff [of f s st P] by auto
    with Inl show ?thesis by simp
  next
    case (Inr st1)
    then have "all_built (kept_models f P)" "st1 = add_provider f s st P"
      using provider_step_iff [of f s st P st1] by auto
    with Inr Cons.IH [of st1] show ?thesis by simp
  qed
qed

lemma all_rows_add_rows: "all_rows (foldl (add_row s P) st rs) = all_rows st @ rs"
  by (induction rs arbitrary: st) (auto simp: add_row_def emit_row_def Let_def)

lemma matched_any_add_rows:
  "matched_any (foldl (add_row s P) st rs) = (matched_any st \<or> rs \<noteq> [])"
  by (induction rs arbitrary: st) (auto simp: add_row_def emit_row_def Let_def)

lemma all_rows_add_providers:
  "all_rows (foldl (add_provider f s) st data)
     = all_rows st @ concat (map (\<lambda>P. built_rows (kept_models f P)) data)"
  by (induction data arbitrary: st) (auto simp: add_provider_def all_rows_add_rows)

lemma matched_any_add_providers:
  "matched_any (foldl (add_provider f s) st data)
     = (matched_any st \<or> concat (map (\<lambda>P. built_rows (kept_models f P)) data) \<noteq> [])"
  by (induction data arbitrary: st) (auto simp: add_provider_def matched_any_add_rows)

section \<open>The empty dataset in interactive mode\<close>

text \<open>
  Claim C10. Without command-line arguments and with an empty dataset, \<^verbatim>\<open>main\<close> is left
  by a ValueError (the \<^verbatim>\<open>max\<close> of line 272 over no provider), whatever is typed: nothing
  has been printed, neither a summary table nor the prompt.
\<close>
theorem interactive_empty_dataset_raises:
  "main [] typed [] = Inl (ValueError, [])"
  by (simp add: main_def py_max_len_def)

section \<open>The filter "all"\<close>

lemmas lower_eval = lower_def lower_char_def upper_letters_def lower_letters_def

lemma lower_empty: "lower '''' = ''''"
  by (simp add: lower_def)

text \<open>
  Claim C3. A filter string that is \<^verbatim>\<open>all\<close> in any letter case gives the same printed
  lines, the same rows and the same exit code (or the same exception) as the empty
  filter string, for every dataset and sort flag.
\<close>
theorem all_filter_same_as_empty:
  "lower f = ''all'' \<Longrightarrow> list_prices data f sort_by_price = list_prices data '''' sort_by_price"
  by (simp add: list_prices_def normalize_filter_def lower_empty)

theorem all_filter_same_as_empty_witness:
  "lower ''aLL'' = ''all''
   \<and> list_prices [acme] ''aLL'' True = list_prices [acme] '''' True"
proof -
  have h: "lower ''aLL'' = ''all''"
    by (simp add: lower_eval)
  from h all_filter_same_as_empty [OF h, of "[acme]" True] show ?thesis by simp
qed

lemma scan_iff:
  "scan data f s = Inr st \<longleftrightarrow>
     (\<forall>P \<in> set data. all_built (kept_models f P)) \<and> st = foldl (add_provider f s) init_state data"
  by (simp add: scan_def provider_loop_iff)

lemma all_rows_scan:
  "scan data f s = Inr st \<Longrightarrow> all_rows st = traversal f data"
  by (simp add: scan_iff all_rows_add_providers init_state_def traversal_def)

lemma matched_any_scan:
  "scan data f s = Inr st \<Longrightarrow> matched_any st = (traversal f data \<noteq> [])"
  by (simp add: scan_iff matched_any_add_providers init_state_def traversal_def)

lemma scan_returns:
  "\<forall>P \<in> set data. all_built (kept_models f P) \<Longrightarrow> \<exists>st. scan data f s = Inr st"
  by (simp add: scan_iff)

lemma list_prices_result:
  assumes "list_prices data f0 s = Inr res"
  shows "(\<forall>P \<in> set data. all_built (kept_models (normalize_filter f0) P))"
    and "rows res = (if s then map (annotate_row data) (sort_rows (traversal (normalize_filter f0) data))
                     else traversal (normalize_filter f0) data)"
    and "exit_code res = (if normalize_filter f0 \<noteq> '''' \<and> traversal (normalize_filter f0) data = [] then 1 else 0)"
proof -
  from assms obtain st where st: "scan data (normalize_filter f0) s = Inr st"
    by (cases "scan data (normalize_filter f0) s") (auto simp: list_prices_def Let_def)
  then show "\<forall>P \<in> set data. all_built (kept_models (normalize_filter f0) P)"
    by (simp add: scan_iff)
  from st have a: "all_rows st = traversal (normalize_filter f0) data"
    by (rule all_rows_scan)
  from st have m: "matched_any st = (traversal (normalize_filter f0) data \<noteq> [])"
    by (rule matched_any_scan)
  from assms st a show "rows res = (if s then map (annotate_row data) (sort_rows (traversal (normalize_filter f0) data))
                     else traversal (normalize_filter f0) data)"
    by (auto simp: list_prices_def Let_def split: if_splits)
  from assms st m show "exit_code res = (if normalize_filter f0 \<noteq> '''' \<and> traversal (normalize_filter f0) data = [] then 1 else 0)"
    by (auto simp: list_prices_def Let_def split: if_splits)
qed

lemma list_prices_returns:
  assumes "\<forall>P \<in> set data. all_built (kept_models (normalize_filter f0) P)"
  shows "\<exists>res. list_prices data f0 s = Inr res"
proof -
  from scan_returns [OF assms] obtain st where "scan data (normalize_filter f0) s = Inr st" by blast
  then show ?thesis by (simp add: list_prices_def Let_def)
qed



section \<open>Rounding to a double\<close>

lemma round_double_small:
  "round_double 1 = Finite 1" "round_double 2 = Finite 2" "round_double 3 = Finite 3"
  "round_double 5 = Finite 5" "round_double (- 1) = Finite (- 1)"
  "round_double (1 / 8) = Finite (1 / 8)"
  by (simp add: round_double_def Let_def, simp add: flog2_def,
      simp add: bit_length.simps pow2_def round_half_even_def Let_def)+

lemma bit_length_gt: "2 ^ k \<le> n \<Longrightarrow> k < bit_length n"
proof (induction k arbitrary: n)
  case 0
  then show ?case by (subst bit_length.simps) simp
next
  case (Suc k)
  then have "2 ^ k \<le> n div 2" by simp
  then have "k < bit_length (n div 2)" by (rule Suc.IH)
  moreover have "n \<noteq> 0" using Suc.prems by (cases "n = 0") simp_all
  ultimately show ?case by (subst bit_length.simps) simp
qed

lemma bit_length_le: "n \<noteq> 0 \<Longrightarrow> 2 ^ (bit_length n - 1) \<le> n"
proof (induction n rule: bit_length.induct)
  case (1 n)
  show ?case
  proof (cases "n div 2 = 0")
    case True
    with 1 show ?thesis
      by (subst bit_length.simps) (simp add: bit_length.simps [of 0])
  next
    case False
    with 1 have ih: "2 ^ (bit_length (n div 2) - 1) \<le> n div 2" by simp
    have pos: "0 < bit_length (n div 2)"
      using False by (subst bit_length.simps) simp
    then have "(2::nat) ^ bit_length (n div 2) = 2 * 2 ^ (bit_length (n div 2) - 1)"
      by (cases "bit_length (n div 2)") simp_all
    also have "\<dots> \<le> 2 * (n div 2)" using ih by simp
    also have "\<dots> \<le> n" by simp
    finally show ?thesis using 1 by (subst bit_length.simps) simp
  qed
qed

lemma round_half_even_ge_floor: "\<lfloor>r\<rfloor> \<le> round_half_even r"
  by (simp add: round_half_even_def Let_def)

lemma round_double_huge:
  assumes "2 ^ 1024 \<le> n"
  shows "round_double (of_int n) = PInf"
proof -
  let ?a = "of_int n :: rat"
  let ?b = "bit_length (nat n)"
  have n: "0 < n" using assms by (smt (verit) zero_less_power)
  have "(2::nat) ^ 1024 \<le> nat n" using assms n by (simp add: le_nat_iff)
  then have b: "1024 < ?b" by (rule bit_length_gt)
  have "2 ^ (?b - 1) \<le> nat n" using n by (intro bit_length_le) simp
  then have lo: "(2::rat) ^ (?b - 1) \<le> ?a"
    using n by (metis of_int_of_nat_eq of_nat_le_iff of_nat_numeral of_nat_power nat_0_le less_imp_le of_int_le_iff of_int_numeral of_int_power)
  have a1: "1 \<le> ?a" using n by simp
  have fl: "flog2 ?a = int ?b - 1" using a1 by (simp add: flog2_def)
  let ?e = "int ?b - 1"
  have e: "max (flog2 ?a) (- 1022) = ?e" using fl b by simp
  have u: "pow2 (?e - 52) = 2 ^ (?b - 53)" using b by (simp add: pow2_def nat_diff_distrib)
  have "?b - 1 = 52 + (?b - 53)" using b by simp
  then have split: "(2::rat) ^ (?b - 1) = 2 ^ 52 * 2 ^ (?b - 53)"
    by (simp only: power_add)
  from lo have "(2::rat) ^ 52 * 2 ^ (?b - 53) \<le> ?a"
    unfolding split .
  moreover have "(0::rat) < 2 ^ (?b - 53)" by simp
  ultimately have "(2::rat) ^ 52 \<le> ?a / 2 ^ (?b - 53)"
    by (simp only: pos_le_divide_eq)
  then have "(2::int) ^ 52 \<le> \<lfloor>?a / 2 ^ (?b - 53)\<rfloor>"
    by (simp add: le_floor_iff)
  then have m: "(2::int) ^ 52 \<le> round_half_even (?a / 2 ^ (?b - 53))"
    using round_half_even_ge_floor [of "?a / 2 ^ (?b - 53)"] by linarith
  have "(2::rat) ^ 1024 \<le> 2 ^ (?b - 1)"
    using b by (intro power_increasing) simp_all
  also have "\<dots> = 2 ^ 52 * 2 ^ (?b - 53)" by (rule split)
  also have "\<dots> \<le> of_int (round_half_even (?a / 2 ^ (?b - 53))) * 2 ^ (?b - 53)"
    using m by (intro mult_right_mono) (simp_all add: of_int_le_iff [of "2 ^ 52", where ?'a = rat, simplified])
  finally have raw: "(2::rat) ^ 1024
      \<le> of_int (round_half_even (?a / 2 ^ (?b - 53))) * 2 ^ (?b - 53)" .
  have pw: "pow2 1024 = 2 ^ 1024" by (simp add: pow2_def)
  have big: "pow2 1024 \<le> of_int (round_half_even (?a / pow2 (?e - 52))) * pow2 (?e - 52)"
    unfolding u pw by (rule raw)
  show ?thesis
    using n big e by (simp add: round_double_def Let_def del: of_int_power power_numeral)
qed

section \<open>Evaluating the examples\<close>

lemmas float_eval = round_double_small round_half_even_def
  format_2f_def str_nat.simps digit_char_def fin_val_def float_negative_def Let_def


lemmas match_eval = matches_filter_def lower_eval sublist_code prefix_code

lemma equals_line_text:
  "equals_line = ''========================================================================================================================''"
  unfolding equals_line_def by code_simp


lemma format_price_null: "format_price JNull = Inr ''''"
  by (simp add: format_price_def)

lemma format_price_1: "format_price (JInt 1) = Inr ''$1.00''"
  by (simp add: format_price_def float_eval)

lemma format_price_2: "format_price (JInt 2) = Inr ''$2.00''"
  by (simp add: format_price_def float_eval)

lemma format_price_5: "format_price (JInt 5) = Inr ''$5.00''"
  by (simp add: format_price_def float_eval)

lemma price_sum_tiny:
  "price_sum_of [(''input_mtok'', JInt 1), (''output_mtok'', JInt 2)] = Inr (Finite 3)"
  by (simp add: price_sum_of_def dict_get_def float_or_zero_def caught_def float_eval)

lemma price_sum_big: "price_sum_of [(''input_mtok'', JInt 5)] = Inr (Finite 5)"
  by (simp add: price_sum_of_def dict_get_def float_or_zero_def caught_def float_eval)

lemma make_row_tiny: "make_row tiny_model = Inr tiny_row"
  by (simp add: make_row_def prices_of_def tiny_model_def tiny_row_def get_or_def prices_dict_def dict_get_def
      bind_e_def format_price_null format_price_1 format_price_2 price_sum_tiny Let_def)

lemma make_row_big: "make_row big_model = Inr big_row"
  by (simp add: make_row_def prices_of_def big_model_def big_row_def get_or_def prices_dict_def dict_get_def
      bind_e_def format_price_null format_price_5 price_sum_big Let_def)




lemma list_prices_nil: "list_prices [] ''ACM'' False
    = Inr \<lparr>printed_lines = [no_match_message ''ACM''], rows = [], exit_code = 1\<rparr>"
  by (simp add: list_prices_def normalize_filter_def scan_def init_state_def match_eval Let_def)

section \<open>Which models are listed\<close>





section \<open>Sorting by price\<close>

lemma float_lt_asym: "float_lt x y \<Longrightarrow> \<not> float_lt y x"
  by (cases x; cases y) (auto simp: float_lt_def fin_val_def)

lemma float_le_trans: "float_le x y \<Longrightarrow> float_le y z \<Longrightarrow> float_le x z"
  by (cases x; cases y; cases z) (auto simp: float_le_def float_lt_def fin_val_def)

lemma float_lt_le: "x \<noteq> NaN \<Longrightarrow> y \<noteq> NaN \<Longrightarrow> float_lt x y \<Longrightarrow> float_le x y"
  by (simp add: float_le_def float_lt_asym)

lemma float_lt_eq_left: "float_lt y x \<Longrightarrow> float_eq x k \<Longrightarrow> \<not> float_eq y k"
  by (cases x; cases y; cases k) (auto simp: float_eq_def float_lt_def fin_val_def)

lemma set_insort_row: "set (insort_row x ys) = insert x (set ys)"
  by (induction ys) auto

lemma set_sort_rows: "set (sort_rows xs) = set xs"
  by (induction xs) (auto simp: sort_rows_def set_insort_row)

lemma sorted_insort_row:
  assumes "PriceSum x \<noteq> NaN" "\<forall>y \<in> set ys. PriceSum y \<noteq> NaN"
    "sorted_wrt (\<lambda>a b. float_le (PriceSum a) (PriceSum b)) ys"
  shows "sorted_wrt (\<lambda>a b. float_le (PriceSum a) (PriceSum b)) (insort_row x ys)"
  using assms
proof (induction ys)
  case Nil
  then show ?case by simp
next
  case (Cons y ys)
  show ?case
  proof (cases "float_lt (PriceSum y) (PriceSum x)")
    case True
    then have "float_le (PriceSum y) (PriceSum x)"
      using Cons.prems by (simp add: float_lt_le)
    with True Cons show ?thesis by (auto simp: set_insort_row)
  next
    case False
    then have xy: "float_le (PriceSum x) (PriceSum y)"
      using Cons.prems by (simp add: float_le_def)
    have "\<forall>z \<in> set ys. float_le (PriceSum x) (PriceSum z)"
      using xy Cons.prems(3) by (auto intro: float_le_trans)
    with False xy Cons.prems show ?thesis by simp
  qed
qed

lemma sorted_sort_rows:
  "\<forall>y \<in> set xs. PriceSum y \<noteq> NaN \<Longrightarrow>
     sorted_wrt (\<lambda>a b. float_le (PriceSum a) (PriceSum b)) (sort_rows xs)"
proof (induction xs)
  case Nil
  then show ?case by (simp add: sort_rows_def)
next
  case (Cons x xs)
  then have "sorted_wrt (\<lambda>a b. float_le (PriceSum a) (PriceSum b)) (sort_rows xs)" by simp
  with Cons.prems have "sorted_wrt (\<lambda>a b. float_le (PriceSum a) (PriceSum b)) (insort_row x (sort_rows xs))"
    by (intro sorted_insort_row) (auto simp: set_sort_rows)
  then show ?case by (simp add: sort_rows_def)
qed

lemma filter_insort_row:
  "filter (\<lambda>r. float_eq (PriceSum r) k) (insort_row x ys)
     = filter (\<lambda>r. float_eq (PriceSum r) k) (x # ys)"
proof (induction ys)
  case Nil
  then show ?case by simp
next
  case (Cons y ys)
  show ?case
  proof (cases "float_lt (PriceSum y) (PriceSum x)")
    case True
    then have "float_eq (PriceSum x) k \<Longrightarrow> \<not> float_eq (PriceSum y) k"
      by (rule float_lt_eq_left)
    with True Cons show ?thesis by auto
  next
    case False
    then show ?thesis by simp
  qed
qed

lemma filter_sort_rows:
  "filter (\<lambda>r. float_eq (PriceSum r) k) (sort_rows xs) = filter (\<lambda>r. float_eq (PriceSum r) k) xs"
proof (induction xs)
  case Nil
  then show ?case by (simp add: sort_rows_def)
next
  case (Cons x xs)
  have "filter (\<lambda>r. float_eq (PriceSum r) k) (sort_rows (x # xs))
          = filter (\<lambda>r. float_eq (PriceSum r) k) (x # sort_rows xs)"
    by (simp add: sort_rows_def filter_insort_row del: filter.simps)
  with Cons show ?case by simp
qed

lemma PriceSum_annotate_row: "PriceSum (annotate_row data r) = PriceSum r"
proof -
  have "PriceSum (fold (\<lambda>provider r'.
             if list_ex (\<lambda>m. m_id m = Some (Model r')) (get_or (p_models provider) [])
             then r'\<lparr>Provider := Some (get_or (p_name provider) '''')\<rparr>
             else r') data r) = PriceSum r"
    by (induction data arbitrary: r) auto
  then show ?thesis by (simp add: annotate_row_def)
qed

lemma printed_add_rows_sorted: "printed (foldl (add_row True P) st rs) = printed st"
  by (induction rs arbitrary: st) (auto simp: add_row_def)

lemma printed_scan_sorted: "scan data f True = Inr st \<Longrightarrow> printed st = []"
proof -
  have "printed (foldl (add_provider f True) st0 data) = printed st0" for st0
    by (induction data arbitrary: st0) (auto simp: add_provider_def printed_add_rows_sorted)
  then show "scan data f True = Inr st \<Longrightarrow> printed st = []"
    by (simp add: scan_iff init_state_def)
qed

lemmas parse_eval = float_of_str_def float_strip_def is_float_space_def underscores_ok.simps split_sign_def
  parse_number_def is_digit_def lower_eval

lemma float_of_str_nan: "float_of_str ''nan'' = Some NaN"
  by (simp add: parse_eval)

lemma format_price_3: "format_price (JInt 3) = Inr ''$3.00''"
  by (simp add: format_price_def float_eval)

lemma format_price_nan: "format_price (JStr ''nan'') = Inr ''$nan''"
  by (simp add: format_price_def float_of_str_nan format_2f_def)

lemma price_sum_mid: "price_sum_of [(''output_mtok'', JInt 3)] = Inr (Finite 3)"
  by (simp add: price_sum_of_def dict_get_def float_or_zero_def caught_def float_eval)

lemma price_sum_nan: "price_sum_of [(''input_mtok'', JStr ''nan'')] = Inr NaN"
  by (simp add: price_sum_of_def dict_get_def float_or_zero_def caught_def float_of_str_nan)

lemma make_row_mid: "make_row mid_model = Inr mid_row"
  by (simp add: make_row_def prices_of_def mid_model_def mid_row_def get_or_def prices_dict_def dict_get_def
      bind_e_def format_price_null format_price_3 price_sum_mid Let_def)

lemma make_row_nan: "make_row nan_model = Inr nan_row"
  by (simp add: make_row_def prices_of_def nan_model_def nan_row_def get_or_def prices_dict_def dict_get_def
      bind_e_def format_price_null format_price_nan price_sum_nan Let_def)

lemma normalize_all: "normalize_filter ''all'' = ''''"
  by (simp add: normalize_filter_def lower_eval)

lemma kept_models_empty_filter: "kept_models '''' P = models_of P"
  by (simp add: kept_models_def provider_matches_def)

lemmas built_eval = built_rows_def all_built_def make_row_tiny make_row_big make_row_mid make_row_nan

lemma traversal_gamma: "traversal '''' [gamma] = [big_row, nan_row, tiny_row]"
  by (simp add: traversal_def kept_models_empty_filter models_of_def gamma_def get_or_def built_eval)

lemma traversal_delta: "traversal '''' [delta] = [big_row, tiny_row, mid_row]"
  by (simp add: traversal_def kept_models_empty_filter models_of_def delta_def get_or_def built_eval)

lemma sort_gamma: "sort_rows [big_row, nan_row, tiny_row] = [big_row, nan_row, tiny_row]"
  by (simp add: sort_rows_def big_row_def nan_row_def tiny_row_def float_lt_def fin_val_def)

lemma sort_delta: "sort_rows [big_row, tiny_row, mid_row] = [tiny_row, mid_row, big_row]"
  by (simp add: sort_rows_def big_row_def mid_row_def tiny_row_def float_lt_def fin_val_def)

lemma returns_gamma: "\<exists>res. list_prices [gamma] ''all'' True = Inr res"
  by (rule list_prices_returns)
     (simp add: normalize_all kept_models_empty_filter models_of_def gamma_def get_or_def built_eval)

lemma scan_sorted_eval:
  "\<forall>P \<in> set data. all_built (kept_models f P) \<Longrightarrow>
     \<exists>st. scan data f True = Inr st \<and> all_rows st = traversal f data \<and> printed st = []
          \<and> matched_any st = (traversal f data \<noteq> [])"
  using scan_returns [of data f True] all_rows_scan printed_scan_sorted matched_any_scan by blast

lemma list_prices_gamma: "list_prices [gamma] ''all'' True = Inr gamma_sorted"
proof -
  have "\<forall>P \<in> set [gamma]. all_built (kept_models '''' P)"
    by (simp add: kept_models_empty_filter models_of_def gamma_def get_or_def built_eval)
  from scan_sorted_eval [OF this] obtain st where st: "scan [gamma] '''' True = Inr st"
    "all_rows st = [big_row, nan_row, tiny_row]" "printed st = []" "matched_any st"
    by (auto simp: traversal_gamma)
  have an: "annotate_row [gamma] big_row = big_row\<lparr>Provider := Some ''Gamma''\<rparr>" "annotate_row [gamma] nan_row = nan_row\<lparr>Provider := Some ''Gamma''\<rparr>" "annotate_row [gamma] tiny_row = tiny_row\<lparr>Provider := Some ''Gamma''\<rparr>"
    by code_simp+
  have pt: "print_table [big_row\<lparr>Provider := Some ''Gamma''\<rparr>, nan_row\<lparr>Provider := Some ''Gamma''\<rparr>,
              tiny_row\<lparr>Provider := Some ''Gamma''\<rparr>] =
        [''Provider | Name | Input | Write | Read |   Out | Model'',
         ''---------+------+-------+-------+------+-------+------'',
         ''Gamma    | m2   | $5.00 |       |      |       | m2   '',
         ''Gamma    | odd  |  $nan |       |      |       | odd  '',
         ''Gamma    | Tiny | $1.00 |       |      | $2.00 | m1   '']"
    by code_simp
  show ?thesis
    by (simp add: list_prices_def normalize_all st sort_gamma an pt gamma_sorted_def sorted_title_def
        rule_line_def equals_line_text Let_def)
qed

lemma list_prices_delta: "list_prices [delta] ''all'' True = Inr delta_sorted"
proof -
  have "\<forall>P \<in> set [delta]. all_built (kept_models '''' P)"
    by (simp add: kept_models_empty_filter models_of_def delta_def get_or_def built_eval)
  from scan_sorted_eval [OF this] obtain st where st: "scan [delta] '''' True = Inr st"
    "all_rows st = [big_row, tiny_row, mid_row]" "printed st = []" "matched_any st"
    by (auto simp: traversal_delta)
  have an: "annotate_row [delta] tiny_row = tiny_row\<lparr>Provider := Some ''Delta''\<rparr>" "annotate_row [delta] mid_row = mid_row\<lparr>Provider := Some ''Delta''\<rparr>" "annotate_row [delta] big_row = big_row\<lparr>Provider := Some ''Delta''\<rparr>"
    by code_simp+
  have pt: "print_table [tiny_row\<lparr>Provider := Some ''Delta''\<rparr>, mid_row\<lparr>Provider := Some ''Delta''\<rparr>,
              big_row\<lparr>Provider := Some ''Delta''\<rparr>] =
        [''Provider | Name | Input | Write | Read |   Out | Model'',
         ''---------+------+-------+-------+------+-------+------'',
         ''Delta    | Tiny | $1.00 |       |      | $2.00 | m1   '',
         ''Delta    | Mid  |       |       |      | $3.00 | m3   '',
         ''Delta    | m2   | $5.00 |       |      |       | m2   '']"
    by code_simp
  show ?thesis
    by (simp add: list_prices_def normalize_all st sort_delta an pt delta_sorted_def sorted_title_def
        rule_line_def equals_line_text Let_def)
qed

text \<open>
  Claim C4, as amended. When sorting is requested and no shown row has NaN as its
  \<^verbatim>\<open>PriceSum\<close>, the shown rows are non-decreasing in \<^verbatim>\<open>PriceSum\<close>, and for every key the
  rows with a \<^verbatim>\<open>PriceSum\<close> equal to it stand in the order of the unsorted traversal (the
  sort is stable); the table printed is the table of these rows.
\<close>
theorem sorted_rows_ordered_and_stable:
  assumes run: "list_prices data f0 True = Inr res"
      and nonan: "\<forall>r \<in> set (rows res). PriceSum r \<noteq> NaN"
  shows "sorted_wrt (\<lambda>a b. float_le (PriceSum a) (PriceSum b)) (rows res)
       \<and> (\<exists>u. list_prices data f0 False = Inr u
             \<and> (\<forall>k. filter (\<lambda>r. float_eq (PriceSum r) k) (rows res)
                      = map (annotate_row data) (filter (\<lambda>r. float_eq (PriceSum r) k) (rows u))))
       \<and> printed_lines res
           = [rule_line, ''All Models Sorted by Price (Input + Output)'', equals_line]
             @ print_table (rows res)
             @ (if exit_code res = 1 then [no_match_message (normalize_filter f0)] else [])"
proof -
  let ?f = "normalize_filter f0"
  let ?le = "\<lambda>a b. float_le (PriceSum a) (PriceSum b)"
  have rows: "rows res = map (annotate_row data) (sort_rows (traversal ?f data))"
    using list_prices_result(2) [OF run] by simp
  from list_prices_returns [OF list_prices_result(1) [OF run]]
  obtain u where u: "list_prices data f0 False = Inr u" by blast
  have urows: "rows u = traversal ?f data"
    using list_prices_result(2) [OF u] by simp
  have "\<forall>r \<in> set (traversal ?f data). PriceSum r \<noteq> NaN"
    using nonan by (auto simp: rows set_sort_rows PriceSum_annotate_row)
  then have "sorted_wrt ?le (sort_rows (traversal ?f data))"
    by (rule sorted_sort_rows)
  then have 1: "sorted_wrt ?le (rows res)"
    by (simp add: rows sorted_wrt_map PriceSum_annotate_row)
  have 2: "filter (\<lambda>r. float_eq (PriceSum r) k) (rows res)
             = map (annotate_row data) (filter (\<lambda>r. float_eq (PriceSum r) k) (rows u))" for k
    by (simp add: rows urows filter_map o_def PriceSum_annotate_row filter_sort_rows)
  from run obtain st where st: "scan data ?f True = Inr st"
    by (cases "scan data ?f True") (auto simp: list_prices_def Let_def)
  have 3: "printed_lines res
           = [rule_line, ''All Models Sorted by Price (Input + Output)'', equals_line]
             @ print_table (rows res)
             @ (if exit_code res = 1 then [no_match_message ?f] else [])"
    using run st printed_scan_sorted [OF st]
    by (auto simp: list_prices_def Let_def split: if_splits)
  from 1 2 3 u show ?thesis by blast
qed

theorem sorted_rows_ordered_and_stable_witness:
  "list_prices [delta] ''all'' True = Inr delta_sorted
   \<and> map PriceSum (rows delta_sorted) = [Finite 3, Finite 3, Finite 5]
   \<and> map Model (rows delta_sorted) = [''m1'', ''m3'', ''m2'']
   \<and> sorted_wrt (\<lambda>a b. float_le (PriceSum a) (PriceSum b)) (rows delta_sorted)
   \<and> (\<exists>u. list_prices [delta] ''all'' False = Inr u
         \<and> (\<forall>k. filter (\<lambda>r. float_eq (PriceSum r) k) (rows delta_sorted)
                  = map (annotate_row [delta]) (filter (\<lambda>r. float_eq (PriceSum r) k) (rows u))))"
proof -
  have run: "list_prices [delta] ''all'' True = Inr delta_sorted"
    by (rule list_prices_delta)
  have keys: "map PriceSum (rows delta_sorted) = [Finite 3, Finite 3, Finite 5]"
    by (simp add: delta_sorted_def tiny_row_def mid_row_def big_row_def)
  have ids: "map Model (rows delta_sorted) = [''m1'', ''m3'', ''m2'']"
    by (simp add: delta_sorted_def tiny_row_def mid_row_def big_row_def)
  have nonan: "\<forall>r \<in> set (rows delta_sorted). PriceSum r \<noteq> NaN"
    by (simp add: delta_sorted_def tiny_row_def mid_row_def big_row_def)
  from sorted_rows_ordered_and_stable [OF run nonan] run keys ids show ?thesis by simp
qed

text \<open>
  The claim as stated fails on a dataset with the price \<^verbatim>\<open>"nan"\<close>: the rows stay in the
  order 5.0, NaN, 3.0.
\<close>
theorem sorted_with_nan_counterexample:
  "list_prices [gamma] ''all'' True = Inr gamma_sorted
   \<and> map PriceSum (rows gamma_sorted) = [Finite 5, NaN, Finite 3]
   \<and> float_lt (Finite 3) (Finite 5)
   \<and> \<not> sorted_wrt float_le (map PriceSum (rows gamma_sorted))"
proof -
  have keys: "map PriceSum (rows gamma_sorted) = [Finite 5, NaN, Finite 3]"
    by (simp add: gamma_sorted_def tiny_row_def nan_row_def big_row_def)
  have "float_lt (Finite 3) (Finite 5)"
    by (simp add: float_lt_def fin_val_def)
  moreover have "\<not> sorted_wrt float_le [Finite 5, NaN, Finite 3]"
    by (simp add: float_le_def)
  ultimately show ?thesis using list_prices_gamma keys by simp
qed

section \<open>Unsorted output\<close>





lemma flattened_single:
  "all_built (kept_models f P) \<Longrightarrow> flattened [P] f = built_rows (kept_models f P)"
proof -
  assume a: "all_built (kept_models f P)"
  then obtain st where st: "scan [P] f False = Inr st"
    using scan_returns [of "[P]" f False] by auto
  from all_rows_scan [OF st] st show ?thesis
    by (simp add: flattened_def traversal_def)
qed


















section \<open>The provider annotation of sorted rows\<close>

lemma Model_annotate_row: "Model (annotate_row data r) = Model r"
proof -
  have "Model (fold (\<lambda>provider r'.
             if list_ex (\<lambda>m. m_id m = Some (Model r')) (get_or (p_models provider) [])
             then r'\<lparr>Provider := Some (get_or (p_name provider) '''')\<rparr>
             else r') data r) = Model r"
    by (induction data arbitrary: r) auto
  then show ?thesis by (simp add: annotate_row_def)
qed

lemma annotate_row_snoc:
  "annotate_row (data @ [P]) r =
     (if list_ex (\<lambda>m. m_id m = Some (Model r)) (models_of P)
      then (annotate_row data r)\<lparr>Provider := Some (pname P)\<rparr>
      else annotate_row data r)"
  using Model_annotate_row [of data r]
  by (simp add: annotate_row_def models_of_def pname_def)

lemma annotate_row_last_wins:
  "Provider (annotate_row data r) =
     (case filter (\<lambda>P. list_ex (\<lambda>m. m_id m = Some (Model r)) (models_of P)) data of
        [] \<Rightarrow> Provider r
      | P # Ps \<Rightarrow> Some (pname (last (P # Ps))))"
proof (induction data rule: rev_induct)
  case Nil
  then show ?case by (simp add: annotate_row_def)
next
  case (snoc P data)
  then show ?case
    by (auto simp: annotate_row_snoc split: list.splits)
qed

lemma make_row_relabelled: "make_row (big_model\<lparr>m_id := Some ''m1''\<rparr>) = Inr relabelled_row"
  by (simp add: make_row_def prices_of_def big_model_def relabelled_row_def get_or_def prices_dict_def dict_get_def
      bind_e_def format_price_null format_price_5 price_sum_big Let_def)

lemma built_first: "all_built (models_of first_p)" "built_rows (models_of first_p) = [tiny_row]"
  by (simp_all add: models_of_def first_p_def get_or_def built_eval)

lemma built_second: "all_built (models_of second_p)" "built_rows (models_of second_p) = [relabelled_row]"
  by (simp_all add: models_of_def second_p_def get_or_def built_rows_def all_built_def make_row_relabelled)

lemma list_prices_first_second: "list_prices [first_p, second_p] ''all'' True = Inr both_second"
proof -
  have "\<forall>P \<in> set [first_p, second_p]. all_built (kept_models '''' P)"
    by (simp add: kept_models_empty_filter built_first built_second)
  from scan_sorted_eval [OF this] obtain st where st: "scan [first_p, second_p] '''' True = Inr st"
    "all_rows st = [tiny_row, relabelled_row]" "printed st = []" "matched_any st"
    by (auto simp: traversal_def kept_models_empty_filter built_first built_second)
  have so: "sort_rows [tiny_row, relabelled_row] = [tiny_row, relabelled_row]"
    by (simp add: sort_rows_def tiny_row_def relabelled_row_def float_lt_def fin_val_def)
  have an: "annotate_row [first_p, second_p] tiny_row = tiny_row\<lparr>Provider := Some ''Second''\<rparr>"
    "annotate_row [first_p, second_p] relabelled_row = relabelled_row\<lparr>Provider := Some ''Second''\<rparr>"
    by code_simp+
  have pt: "print_table [tiny_row\<lparr>Provider := Some ''Second''\<rparr>, relabelled_row\<lparr>Provider := Some ''Second''\<rparr>] =
        [''Provider | Name | Input | Write | Read |   Out | Model'',
         ''---------+------+-------+-------+------+-------+------'',
         ''Second   | Tiny | $1.00 |       |      | $2.00 | m1   '',
         ''Second   | m1   | $5.00 |       |      |       | m1   '']"
    by code_simp
  show ?thesis
    by (simp add: list_prices_def normalize_all st so an pt both_second_def sorted_title_def
        rule_line_def equals_line_text Let_def)
qed

text \<open>
  Claim C5 at its failing input. Both providers have a model with the id \<^verbatim>\<open>m1\<close>. The
  row of the model of the provider First is annotated with Second: the loop over the
  providers does not stop at the first provider with a matching model, so the last such
  provider gives the annotation.
\<close>
theorem annotation_takes_last_provider:
  "list_prices [first_p, second_p] ''all'' True = Inr both_second
   \<and> map Provider (rows both_second) = [Some ''Second'', Some ''Second'']
   \<and> flattened [first_p] '''' = [tiny_row]
   \<and> annotate_row [first_p, second_p] tiny_row = tiny_row\<lparr>Provider := Some ''Second''\<rparr>"
proof -
  have "annotate_row [first_p, second_p] tiny_row = tiny_row\<lparr>Provider := Some ''Second''\<rparr>"
    by code_simp
  moreover have "flattened [first_p] '''' = [tiny_row]"
    by (simp add: flattened_single kept_models_empty_filter built_first)
  ultimately show ?thesis
    using list_prices_first_second by (simp add: both_second_def)
qed

section \<open>The price sum\<close>

lemma pow2_pos: "0 < pow2 k"
  by (simp add: pow2_def)

lemma round_half_even_nonneg: "0 \<le> r \<Longrightarrow> 0 \<le> round_half_even r"
  by (auto simp: round_half_even_def Let_def)

lemma round_double_nonneg: "0 \<le> q \<Longrightarrow> float_le (Finite 0) (round_double q)"
proof -
  assume q: "0 \<le> q"
  show ?thesis
  proof (cases "q = 0")
    case True
    then show ?thesis by (simp add: round_double_def float_le_def float_lt_def fin_val_def)
  next
    case False
    let ?e = "max (flog2 \<bar>q\<bar>) (- 1022)"
    let ?u = "pow2 (?e - 52)"
    have "0 \<le> \<bar>q\<bar> / ?u" using pow2_pos [of "?e - 52"] by simp
    then have "0 \<le> round_half_even (\<bar>q\<bar> / ?u)" by (rule round_half_even_nonneg)
    then have "(0::rat) \<le> of_int (round_half_even (\<bar>q\<bar> / ?u)) * ?u"
      using pow2_pos [of "?e - 52"] by simp
    with False q show ?thesis
      by (auto simp: round_double_def Let_def float_le_def float_lt_def fin_val_def)
  qed
qed

lemma float_add_nonneg:
  assumes "float_le (Finite 0) x" "float_le (Finite 0) y"
  shows "float_le (Finite 0) (float_add x y)"
proof (cases x)
  case (Finite a)
  note xa = this
  show ?thesis
  proof (cases y)
    case (Finite b)
    with xa assms have "0 \<le> a + b" by (simp add: float_le_def float_lt_def fin_val_def)
    with xa Finite show ?thesis by (simp add: round_double_nonneg)
  qed (use xa assms in \<open>auto simp: float_le_def float_lt_def fin_val_def\<close>)
qed (use assms in \<open>cases y; auto simp: float_le_def float_lt_def fin_val_def\<close>)+

lemma float_zero_nonneg: "float_le (Finite 0) (Finite 0)"
  by (simp add: float_le_def float_lt_def fin_val_def)

lemma float_add_zero_zero: "round_double 0 = Finite 0"
  by (simp add: round_double_def)

lemma float_or_zero_cases:
  assumes "no_number v \<or> nonneg_number v"
  shows "float_or_zero v = Inl ValueError \<and> no_number v
       \<or> (\<exists>x. float_or_zero v = Inr x \<and> float_le (Finite 0) x \<and> x = contribution v
              \<and> (no_number v \<longrightarrow> x = Finite 0))"
proof (cases "truthy v \<and> is_int_float_str v")
  case False
  then show ?thesis
    by (auto simp: float_or_zero_def contribution_def float_zero_nonneg)
next
  case True
  show ?thesis
  proof (cases "py_float v")
    case (Inl e)
    with assms True show ?thesis
      by (auto simp: float_or_zero_def no_number_def nonneg_number_def)
  next
    case (Inr x)
    with assms True show ?thesis
      by (auto simp: float_or_zero_def no_number_def nonneg_number_def contribution_def)
  qed
qed

text \<open>
  Claim C6, as amended. Take any model record, whatever the shape of its \<^verbatim>\<open>prices\<close>
  field, in which each of \<^verbatim>\<open>input_mtok\<close> and \<^verbatim>\<open>output_mtok\<close> is either no number
  (missing, null, false, zero, empty, not an int, float or str, or a string that
  \<^verbatim>\<open>float\<close> rejects) or converts to a float that is at least 0.0 (so neither negative nor
  NaN, and no integer beyond the float range). Then \<^verbatim>\<open>price_sum\<close> is computed without
  raising and is a float that is at least 0.0. It is exactly 0.0 when both values are no
  numbers, and it is the float sum of the two values, each no number counted as 0.0,
  unless \<^verbatim>\<open>input_mtok\<close> is a string that \<^verbatim>\<open>float\<close> rejects.
\<close>
theorem price_sum_nonnegative:
  assumes inp: "no_number (dict_get (prices_of m) ''input_mtok'' (JInt 0))
                \<or> nonneg_number (dict_get (prices_of m) ''input_mtok'' (JInt 0))"
      and out: "no_number (dict_get (prices_of m) ''output_mtok'' (JInt 0))
                \<or> nonneg_number (dict_get (prices_of m) ''output_mtok'' (JInt 0))"
  shows "\<exists>s. price_sum_of (prices_of m) = Inr s \<and> float_le (Finite 0) s
            \<and> (no_number (dict_get (prices_of m) ''input_mtok'' (JInt 0))
                 \<and> no_number (dict_get (prices_of m) ''output_mtok'' (JInt 0)) \<longrightarrow> s = Finite 0)
            \<and> (float_or_zero (dict_get (prices_of m) ''input_mtok'' (JInt 0)) \<noteq> Inl ValueError \<longrightarrow>
                 s = float_add (contribution (dict_get (prices_of m) ''input_mtok'' (JInt 0)))
                               (contribution (dict_get (prices_of m) ''output_mtok'' (JInt 0))))"
proof -
  let ?i = "dict_get (prices_of m) ''input_mtok'' (JInt 0)"
  let ?o = "dict_get (prices_of m) ''output_mtok'' (JInt 0)"
  from float_or_zero_cases [OF inp] show ?thesis
  proof
    assume "float_or_zero ?i = Inl ValueError \<and> no_number ?i"
    then show ?thesis
      by (simp add: price_sum_of_def Let_def caught_def float_add_zero_zero float_zero_nonneg)
  next
    assume "\<exists>x. float_or_zero ?i = Inr x \<and> float_le (Finite 0) x \<and> x = contribution ?i
              \<and> (no_number ?i \<longrightarrow> x = Finite 0)"
    then obtain x where x: "float_or_zero ?i = Inr x" "float_le (Finite 0) x" "x = contribution ?i"
      "no_number ?i \<longrightarrow> x = Finite 0" by blast
    from float_or_zero_cases [OF out] show ?thesis
    proof
      assume o: "float_or_zero ?o = Inl ValueError \<and> no_number ?o"
      then have c: "contribution ?o = Finite 0"
        by (auto simp: contribution_def float_or_zero_def split: if_splits)
      have "float_le (Finite 0) (float_add x (Finite 0))"
        using x(2) float_zero_nonneg by (rule float_add_nonneg)
      with x o c show ?thesis
        by (auto simp: price_sum_of_def Let_def caught_def float_add_zero_zero)
    next
      assume "\<exists>y. float_or_zero ?o = Inr y \<and> float_le (Finite 0) y \<and> y = contribution ?o
              \<and> (no_number ?o \<longrightarrow> y = Finite 0)"
      then obtain y where y: "float_or_zero ?o = Inr y" "float_le (Finite 0) y" "y = contribution ?o"
        "no_number ?o \<longrightarrow> y = Finite 0" by blast
      have "float_le (Finite 0) (float_add x y)"
        using x(2) y(2) by (rule float_add_nonneg)
      with x y show ?thesis
        by (auto simp: price_sum_of_def Let_def float_add_zero_zero)
    qed
  qed
qed

theorem price_sum_nonnegative_witness:
  "no_number (dict_get (prices_of mid_model) ''input_mtok'' (JInt 0))
   \<and> nonneg_number (dict_get (prices_of mid_model) ''output_mtok'' (JInt 0))
   \<and> price_sum_of (prices_of mid_model) = Inr (Finite 3)
   \<and> float_le (Finite 0) (Finite 3)
   \<and> float_add (contribution (dict_get (prices_of mid_model) ''input_mtok'' (JInt 0)))
        (contribution (dict_get (prices_of mid_model) ''output_mtok'' (JInt 0))) = Finite 3"
proof -
  have p: "prices_of mid_model = [(''output_mtok'', JInt 3)]"
    by (simp add: prices_of_def mid_model_def get_or_def prices_dict_def)
  have i: "no_number (dict_get (prices_of mid_model) ''input_mtok'' (JInt 0))"
    by (simp add: p dict_get_def no_number_def)
  have o: "nonneg_number (dict_get (prices_of mid_model) ''output_mtok'' (JInt 0))"
    by (simp add: p dict_get_def nonneg_number_def float_eval float_le_def float_lt_def)
  have s: "price_sum_of (prices_of mid_model) = Inr (Finite 3)"
    by (simp add: p price_sum_mid)
  have f: "float_or_zero (dict_get (prices_of mid_model) ''input_mtok'' (JInt 0)) \<noteq> Inl ValueError"
    by (simp add: p dict_get_def float_or_zero_def)
  from price_sum_nonnegative [of mid_model] i o s f show ?thesis by auto
qed

text \<open>
  The claim as stated fails for a negative price: the sum is negative.
\<close>
theorem negative_price_counterexample:
  "price_sum_of (prices_of neg_model) = Inr (Finite (- 1))
   \<and> \<not> float_le (Finite 0) (Finite (- 1))"
  by (simp add: prices_of_def neg_model_def get_or_def prices_dict_def price_sum_of_def
      dict_get_def float_or_zero_def float_eval float_le_def float_lt_def)

section \<open>format_price\<close>

lemma is_digit_digit_char: "is_digit (digit_char d)"
proof -
  have "d mod 10 < length ''0123456789''" by simp
  then have "''0123456789'' ! (d mod 10) \<in> set ''0123456789''" by (rule nth_mem)
  then show ?thesis by (simp add: is_digit_def digit_char_def)
qed

lemma str_nat_digits: "str_nat n \<noteq> [] \<and> list_all is_digit (str_nat n)"
proof (induction n rule: str_nat.induct)
  case (1 n)
  show ?case
  proof (cases "n < 10")
    case True
    then show ?thesis by (subst (1 2) str_nat.simps) (simp add: is_digit_digit_char)
  next
    case False
    with 1 show ?thesis by (subst (1 2) str_nat.simps) (simp add: is_digit_digit_char)
  qed
qed

lemma not_digit_dot: "\<not> is_digit CHR ''.''" "\<not> is_digit CHR ''-''"
  by (simp_all add: is_digit_def)

lemma two_decimal_digits:
  assumes "ds \<noteq> []" "list_all is_digit ds" "is_digit a" "is_digit b"
  shows "two_decimal (ds @ ''.'' @ [a, b])" "two_decimal (''-'' @ ds @ ''.'' @ [a, b])"
proof -
  have hd: "hd ds \<noteq> CHR ''-''"
    using assms(1,2) not_digit_dot(2) by (cases ds) auto
  have tw: "takeWhile is_digit (ds @ ''.'' @ [a, b]) = ds"
    using assms(2) by (simp add: takeWhile_append2 list_all_iff not_digit_dot)
  have dw: "dropWhile is_digit (ds @ ''.'' @ [a, b]) = ''.'' @ [a, b]"
    using assms(2) by (simp add: dropWhile_append2 list_all_iff not_digit_dot)
  show "two_decimal (ds @ ''.'' @ [a, b])"
    using assms hd tw dw by (simp add: two_decimal_def Let_def)
  show "two_decimal (''-'' @ ds @ ''.'' @ [a, b])"
    using assms tw dw by (simp add: two_decimal_def Let_def)
qed

lemma two_decimal_format_2f: "is_finite x \<Longrightarrow> two_decimal (format_2f x)"
proof -
  assume "is_finite x"
  then have "format_2f x =
     (let n = nat (round_half_even (\<bar>fin_val x\<bar> * 100))
      in (if float_negative x then ''-'' else '''') @ str_nat (n div 100) @ ''.''
           @ [digit_char (n mod 100 div 10), digit_char (n mod 10)])"
    by (cases x) (simp_all add: format_2f_def is_finite_def)
  then show ?thesis
    using two_decimal_digits [OF str_nat_digits [THEN conjunct1] str_nat_digits [THEN conjunct2]
        is_digit_digit_char is_digit_digit_char]
    by (simp add: Let_def)
qed

lemma py_float_not_null: "py_float v = Inr x \<Longrightarrow> v \<noteq> JNull"
  by auto

lemma float_of_str_junk: "float_of_str ''not-a-number'' = None"
  by (simp add: parse_eval)

lemma float_of_str_inf: "float_of_str ''inf'' = Some PInf"
  by (simp add: parse_eval)

text \<open>\<^verbatim>\<open>float\<close> raises OverflowError for every integer from \<open>2 ^ 1024\<close> on, and \<^verbatim>\<open>format_price\<close>
  does not catch it.\<close>
lemma format_price_huge:
  assumes "2 ^ 1024 \<le> n"
  shows "format_price (JInt n) = Inl OverflowError"
  using round_double_huge [OF assms] by (simp add: format_price_def)

text \<open>
  Claim C8, as amended. \<^verbatim>\<open>format_price(None)\<close> and \<^verbatim>\<open>format_price("not-a-number")\<close> return the
  empty string and \<^verbatim>\<open>format_price(3)\<close> returns \<^verbatim>\<open>"$3.00"\<close>. In general \<^verbatim>\<open>format_price\<close> returns
  the empty string when \<^verbatim>\<open>float\<close> rejects the value with TypeError or ValueError; when
  \<^verbatim>\<open>float\<close> gives a finite number it returns a dollar sign, an optional minus sign,
  digits, a point and two digits; when \<^verbatim>\<open>float\<close> gives an infinity or NaN it returns
  \<^verbatim>\<open>"$inf"\<close>, \<^verbatim>\<open>"$-inf"\<close> or \<^verbatim>\<open>"$nan"\<close>.
\<close>
theorem format_price_cases:
  "format_price JNull = Inr ''''
   \<and> format_price (JStr ''not-a-number'') = Inr ''''
   \<and> format_price (JInt 3) = Inr ''$3.00''
   \<and> (py_float v = Inl TypeError \<or> py_float v = Inl ValueError \<longrightarrow> format_price v = Inr '''')
   \<and> (py_float v = Inr x \<longrightarrow>
         format_price v = Inr (''$'' @ format_2f x)
         \<and> (is_finite x \<longrightarrow> dollar_two_decimal (''$'' @ format_2f x))
         \<and> (x = PInf \<longrightarrow> format_price v = Inr ''$inf'')
         \<and> (x = MInf \<longrightarrow> format_price v = Inr ''$-inf'')
         \<and> (x = NaN \<longrightarrow> format_price v = Inr ''$nan''))"
proof -
  have 1: "format_price (JStr ''not-a-number'') = Inr ''''"
    by (simp add: format_price_def float_of_str_junk)
  have 2: "py_float v = Inl TypeError \<or> py_float v = Inl ValueError \<longrightarrow> format_price v = Inr ''''"
    by (auto simp: format_price_def)
  have 3: "py_float v = Inr x \<longrightarrow> format_price v = Inr (''$'' @ format_2f x)"
    by (auto simp: format_price_def)
  have 4: "is_finite x \<longrightarrow> dollar_two_decimal (''$'' @ format_2f x)"
    by (simp add: dollar_two_decimal_def two_decimal_format_2f)
  have 5: "format_2f PInf = ''inf''" "format_2f MInf = ''-inf''" "format_2f NaN = ''nan''"
    by (simp_all add: format_2f_def)
  from 1 2 3 4 5 format_price_null format_price_3 show ?thesis by auto
qed

lemma float_of_str_eighth: "float_of_str ''0.125'' = Some (Finite (1 / 8))"
  by (simp add: parse_eval digits_val_def digit_val_def float_eval)

theorem format_price_cases_witness:
  "py_float (JStr ''0.125'') = Inr (Finite (1 / 8))
   \<and> is_finite (Finite (1 / 8))
   \<and> format_price (JStr ''0.125'') = Inr ''$0.12''
   \<and> dollar_two_decimal ''$0.12''
   \<and> py_float (JList []) = Inl TypeError
   \<and> format_price (JList []) = Inr ''''"
proof -
  have p: "py_float (JStr ''0.125'') = Inr (Finite (1 / 8))"
    by (simp add: float_of_str_eighth)
  have f: "is_finite (Finite (1 / 8))"
    by (simp add: is_finite_def)
  have "format_2f (Finite (1 / 8)) = ''0.12''"
    by code_simp
  then have s: "''$'' @ format_2f (Finite (1 / 8)) = ''$0.12''"
    by simp
  have t: "py_float (JList []) = Inl TypeError"
    by simp
  from format_price_cases [of "JStr ''0.125''" "Finite (1 / 8)"] format_price_cases [of "JList []"]
    p f s t
  show ?thesis by simp
qed

text \<open>
  The claim as stated fails for the string \<^verbatim>\<open>"inf"\<close>, which \<^verbatim>\<open>float\<close> converts: the result
  \<^verbatim>\<open>"$inf"\<close> has no two decimals. It also fails for the integer \<open>2 ^ 1024\<close>, where
  \<^verbatim>\<open>format_price\<close> raises.
\<close>
theorem format_price_counterexample:
  "py_float (JStr ''inf'') = Inr PInf
   \<and> format_price (JStr ''inf'') = Inr ''$inf''
   \<and> \<not> dollar_two_decimal ''$inf''
   \<and> format_price (JInt (2 ^ 1024)) = Inl OverflowError"
proof -
  have "\<not> dollar_two_decimal ''$inf''"
    by (simp add: dollar_two_decimal_def two_decimal_def is_digit_def)
  moreover have "format_price (JInt (2 ^ 1024)) = Inl OverflowError"
    by (rule format_price_huge) simp
  moreover have "format_price (JStr ''inf'') = Inr ''$inf''"
    by (simp add: format_price_def float_of_str_inf format_2f_def)
  ultimately show ?thesis
    by (simp add: float_of_str_inf)
qed

end
